theory Spec2Isabelle
  imports Main "HOL-Library.Word" "HOL-Library.Signed_Division"
begin

unbundle bit_operations_syntax

section \<open>Machine integers and the host stack\<close>

text \<open>
  The two modules (\<^verbatim>\<open>tcp_nice.c\<close>, \<^verbatim>\<open>tcp_westwoodlp.c\<close>) are Linux 4.4 congestion
  control modules. Their C integers are modelled as machine words of the same width:
  \<^verbatim>\<open>u8\<close>, \<^verbatim>\<open>u16\<close>, \<^verbatim>\<open>u32\<close>, \<^verbatim>\<open>u64\<close> are unsigned, \<^verbatim>\<open>int\<close> and \<^verbatim>\<open>s32\<close> are 32-bit words read
  with \<open>sint\<close> where C compares or divides them as signed values, and
  \<^verbatim>\<open>unsigned long\<close> is 64 bits wide (the LP64 kernel build).
  A division whose divisor is zero traps in the kernel; every function that divides
  returns an \<open>option\<close>, and \<open>None\<close> is that trap.
\<close>

type_synonym u8 = "8 word"
type_synonym u16 = "16 word"
type_synonym u32 = "32 word"
type_synonym u64 = "64 word"
type_synonym s32 = "32 word"

text \<open>
  The fields of \<^verbatim>\<open>struct tcp_sock\<close> (and of the connection socket around it) that the
  two modules and the host functions they call read or write.
\<close>

record tcp_sock =
  snd_nxt :: u32
  snd_una :: u32
  snd_cwnd :: u32
  snd_cwnd_cnt :: u32
  snd_cwnd_clamp :: u32
  snd_ssthresh :: u32
  mss_cache :: u32
  advmss :: u16
  max_packets_out :: u32
  is_cwnd_limited :: bool
  icsk_ca_state :: u8

text \<open>
  The functions of the host TCP stack that the modules call are not part of the
  repository. They are parameters of the model: \<^verbatim>\<open>tcp_in_slow_start\<close>,
  \<^verbatim>\<open>tcp_slow_start\<close> (its return value is dropped by every caller here),
  \<^verbatim>\<open>tcp_reno_cong_avoid\<close>, \<^verbatim>\<open>tcp_current_ssthresh\<close>, \<^verbatim>\<open>usecs_to_jiffies\<close> (with the
  truncation to \<^verbatim>\<open>u32\<close> of the assignment that receives it) and the constant \<^verbatim>\<open>HZ\<close>.
  The host functions work on the \<^verbatim>\<open>tcp_sock\<close> only, never on the module's private area.
\<close>

record host =
  tcp_in_slow_start :: "tcp_sock \<Rightarrow> bool"
  tcp_slow_start :: "tcp_sock \<Rightarrow> u32 \<Rightarrow> tcp_sock"
  tcp_reno_cong_avoid :: "tcp_sock \<Rightarrow> u32 \<Rightarrow> u32 \<Rightarrow> tcp_sock"
  tcp_current_ssthresh :: "tcp_sock \<Rightarrow> u32"
  usecs_to_jiffies :: "u32 \<Rightarrow> u32"
  HZ :: s32

text \<open>\<^verbatim>\<open>after(seq2, seq1)\<close> is \<^verbatim>\<open>before(seq1, seq2)\<close>, that is \<^verbatim>\<open>(__s32)(seq1 - seq2) < 0\<close>.\<close>

definition after :: "u32 \<Rightarrow> u32 \<Rightarrow> bool" where
  "after seq2 seq1 \<longleftrightarrow> sint (seq1 - seq2) < 0"

text \<open>C's division of two \<^verbatim>\<open>int\<close>s truncates towards zero.\<close>

definition c_sdiv :: "s32 \<Rightarrow> s32 \<Rightarrow> s32" where
  "c_sdiv a b = word_of_int (sint a sdiv sint b)"

datatype tcp_ca_event =
    CA_EVENT_TX_START
  | CA_EVENT_CWND_RESTART
  | CA_EVENT_COMPLETE_CWR
  | CA_EVENT_LOSS
  | CA_EVENT_ECN_NO_CE
  | CA_EVENT_ECN_IS_CE
  | CA_EVENT_DELAYED_ACK
  | CA_EVENT_NON_DELAYED_ACK

definition TCP_CA_Open :: u8 where
  "TCP_CA_Open = 0"

definition CA_ACK_SLOWPATH :: u32 where
  "CA_ACK_SLOWPATH = 1"

section \<open>TCP Nice (\<^verbatim>\<open>tcp_nice.c\<close>)\<close>

text \<open>The module parameters, each a C \<^verbatim>\<open>int\<close>.\<close>

record nice_params =
  alpha :: s32
  beta :: s32
  gamma :: s32
  fraction :: s32
  threshold :: s32
  max_fwnd :: s32

text \<open>The values the source gives them.\<close>

definition nice_defaults :: nice_params where
  "nice_defaults =
     \<lparr>alpha = 1, beta = 3, gamma = 1, fraction = 50, threshold = 20, max_fwnd = 96\<rparr>"

record nice =
  beg_snd_nxt :: u32
  beg_snd_una :: u32
  beg_snd_cwnd :: u32
  doing_nice_now :: u8
  cntRTT :: u16
  minRTT :: u32
  maxRTT :: u32
  baseRTT :: u32
  numCong :: u8
  fractional_cwnd :: u8
  nice_timer :: u8

definition nice_enable :: "tcp_sock \<Rightarrow> nice \<Rightarrow> nice" where
  "nice_enable tp n =
     n\<lparr>doing_nice_now := 1, beg_snd_nxt := snd_nxt tp, cntRTT := 0, minRTT := 0x7fffffff\<rparr>"

definition nice_disable :: "nice \<Rightarrow> nice" where
  "nice_disable n = n\<lparr>doing_nice_now := 0\<rparr>"

text \<open>
  \<^verbatim>\<open>tcp_nice_init\<close> writes the module-level static \<^verbatim>\<open>fraction_divisor\<close>; the static is
  the first component of the result. \<^verbatim>\<open>100 / fraction\<close> is a signed division.
\<close>

definition tcp_nice_init :: "nice_params \<Rightarrow> tcp_sock \<Rightarrow> nice \<Rightarrow> (s32 \<times> nice) option" where
  "tcp_nice_init p tp n =
     (if fraction p = 0 then None
      else Some (c_sdiv 100 (fraction p),
                 nice_enable tp (n\<lparr>fractional_cwnd := 2, nice_timer := 0, baseRTT := 0x7fffffff\<rparr>)))"

text \<open>
  The right-hand side of the comparison at the end of \<^verbatim>\<open>tcp_nice_pkts_acked\<close>:
  \<^verbatim>\<open>((100UL - threshold) * baseRTT + threshold * maxRTT) / 100UL\<close>. The first product is
  computed in \<^verbatim>\<open>unsigned long\<close>, the second in 32 bits (\<^verbatim>\<open>int\<close> times \<^verbatim>\<open>u32\<close>).
\<close>

definition cong_threshold :: "nice_params \<Rightarrow> nice \<Rightarrow> u64" where
  "cong_threshold p n =
     ((100 - scast (threshold p)) * ucast (baseRTT n) + ucast (threshold p * maxRTT n)) div 100"

text \<open>
  \<^verbatim>\<open>tcp_nice_pkts_acked\<close>. \<^verbatim>\<open>cnt\<close> is not used. \<^verbatim>\<open>vrtt = rtt_us + 1\<close> is stored into a \<^verbatim>\<open>u32\<close>
  (the kernel is built with wrapping signed arithmetic, so the largest \<^verbatim>\<open>s32\<close> gives
  \<^verbatim>\<open>0x80000000\<close>); \<^verbatim>\<open>cntRTT++\<close> and \<^verbatim>\<open>numCong++\<close> wrap in their 16 and 8 bits.
\<close>

definition tcp_nice_pkts_acked :: "nice_params \<Rightarrow> nice \<Rightarrow> u32 \<Rightarrow> s32 \<Rightarrow> nice" where
  "tcp_nice_pkts_acked p n cnt rtt_us =
     (if sint rtt_us < 0 then n
      else
        let vrtt = rtt_us + 1;
            n1 = (if vrtt < baseRTT n then n\<lparr>baseRTT := vrtt\<rparr> else n);
            n2 = (if cntRTT n1 = 0 then n1\<lparr>maxRTT := baseRTT n1 * 2\<rparr> else n1);
            n3 = n2\<lparr>minRTT := min (minRTT n2) vrtt\<rparr>;
            n4 = n3\<lparr>maxRTT := max (maxRTT n3) vrtt\<rparr>;
            n5 = n4\<lparr>cntRTT := cntRTT n4 + 1\<rparr>
        in if ucast vrtt > cong_threshold p n5 then n5\<lparr>numCong := numCong n5 + 1\<rparr> else n5)"

definition tcp_nice_state :: "tcp_sock \<Rightarrow> nice \<Rightarrow> u8 \<Rightarrow> nice" where
  "tcp_nice_state tp n ca_state =
     (if ca_state = TCP_CA_Open then nice_enable tp n else nice_disable n)"

definition tcp_nice_cwnd_event ::
  "nice_params \<Rightarrow> tcp_sock \<Rightarrow> s32 \<times> nice \<Rightarrow> tcp_ca_event \<Rightarrow> (s32 \<times> nice) option" where
  "tcp_nice_cwnd_event p tp s event =
     (if event = CA_EVENT_CWND_RESTART \<or> event = CA_EVENT_TX_START
      then tcp_nice_init p tp (snd s) else Some s)"

definition tcp_nice_ssthresh :: "tcp_sock \<Rightarrow> u32" where
  "tcp_nice_ssthresh tp = min (snd_ssthresh tp) (snd_cwnd tp - 1)"

text \<open>
  \<^verbatim>\<open>tcp_reno_fractional_ca\<close>. \<^verbatim>\<open>cwnd_change\<close> is an \<^verbatim>\<open>int16_t\<close> that receives a 32-bit
  unsigned product; \<^verbatim>\<open>fractional_cwnd -= cwnd_change\<close> is computed in \<^verbatim>\<open>int\<close> and stored
  back into the \<^verbatim>\<open>u8\<close>.
\<close>

definition tcp_reno_fractional_ca ::
  "host \<Rightarrow> tcp_sock \<Rightarrow> nice \<Rightarrow> u32 \<Rightarrow> u32 \<Rightarrow> tcp_sock \<times> nice" where
  "tcp_reno_fractional_ca h tp n ack acked =
     (let cur_cwnd = snd_cwnd tp;
          cur_cwnd_cnt = snd_cwnd_cnt tp;
          tp1 = tcp_reno_cong_avoid h tp ack acked;
          cwnd_change = (ucast (2 * (snd_cwnd tp1 - cur_cwnd)) :: 16 word);
          n1 = (if cwnd_change \<noteq> 0
                then n\<lparr>fractional_cwnd :=
                        ucast ((ucast (fractional_cwnd n) :: s32) - scast cwnd_change)\<rparr>
                else n)
      in if fractional_cwnd n1 > 2
         then (tp1\<lparr>snd_cwnd := cur_cwnd, snd_cwnd_cnt := cur_cwnd_cnt\<rparr>, n1)
         else (tp1, n1\<lparr>fractional_cwnd := 2\<rparr>))"

text \<open>
  The first statement of \<^verbatim>\<open>tcp_nice_cong_avoid\<close>: the pacing of the fractional window.
\<close>

definition nice_pacing :: "tcp_sock \<Rightarrow> nice \<Rightarrow> tcp_sock \<times> nice" where
  "nice_pacing tp n =
     (if fractional_cwnd n > 2 \<and> nice_timer n = fractional_cwnd n
      then (tp\<lparr>snd_cwnd := 2\<rparr>, n\<lparr>nice_timer := 1\<rparr>)
      else if fractional_cwnd n > 2
      then (tp\<lparr>snd_cwnd := 0\<rparr>, n\<lparr>nice_timer := nice_timer n + 1\<rparr>)
      else (tp, n))"

text \<open>
  The Reno fallback, which the source writes out twice (when the module is not sampling,
  and for a round of at most two samples). \<^verbatim>\<open>fractional_cwnd <= max_fwnd\<close> compares two
  \<^verbatim>\<open>int\<close>s.
\<close>

definition nice_reno_fallback ::
  "nice_params \<Rightarrow> host \<Rightarrow> tcp_sock \<Rightarrow> nice \<Rightarrow> u32 \<Rightarrow> u32 \<Rightarrow> tcp_sock \<times> nice" where
  "nice_reno_fallback p h tp n ack acked =
     (if snd_cwnd tp \<le> 2 \<and> fractional_cwnd n \<ge> 2 \<and> uint (fractional_cwnd n) \<le> sint (max_fwnd p)
      then tcp_reno_fractional_ca h tp n ack acked
      else (tcp_reno_cong_avoid h tp ack acked, n))"

text \<open>The multiplicative window reduction, with the reset of the counter that follows it.\<close>

definition nice_mult_decrease :: "nice_params \<Rightarrow> tcp_sock \<Rightarrow> nice \<Rightarrow> tcp_sock \<times> nice" where
  "nice_mult_decrease p tp n =
     (let (tp1, n1) =
            (if snd_cwnd tp > 2 \<and> fractional_cwnd n = 2
             then (tp\<lparr>snd_cwnd := snd_cwnd tp div 2\<rparr>, n)
             else if uint (fractional_cwnd n) \<le> sint (max_fwnd p)
             then (tp, n\<lparr>fractional_cwnd := fractional_cwnd n * 4\<rparr>)
             else (tp, n))
      in (tp1, n1\<lparr>numCong := 0\<rparr>))"

text \<open>The congestion avoidance branch: \<^verbatim>\<open>diff\<close> against \<^verbatim>\<open>beta\<close> and \<^verbatim>\<open>alpha\<close>.\<close>

definition nice_cong_avoidance ::
  "nice_params \<Rightarrow> tcp_sock \<Rightarrow> nice \<Rightarrow> u32 \<Rightarrow> tcp_sock \<times> nice" where
  "nice_cong_avoidance p tp n diff =
     (if diff > beta p then
        (let (tp1, n1) =
               (if snd_cwnd tp > 2 \<and> fractional_cwnd n = 2
                then (tp\<lparr>snd_cwnd := snd_cwnd tp - 1\<rparr>, n)
                else if uint (fractional_cwnd n) \<le> sint (max_fwnd p)
                then (tp, n\<lparr>fractional_cwnd := fractional_cwnd n + 2\<rparr>)
                else (tp, n))
         in (tp1\<lparr>snd_ssthresh := tcp_nice_ssthresh tp1\<rparr>, n1))
      else if diff < alpha p then
        (if snd_cwnd tp \<ge> 2 \<and> fractional_cwnd n = 2
         then (tp\<lparr>snd_cwnd := snd_cwnd tp + 1\<rparr>, n)
         else if uint (fractional_cwnd n) \<le> sint (max_fwnd p)
         then (tp, n\<lparr>fractional_cwnd := fractional_cwnd n - 2\<rparr>)
         else (tp, n))
      else (tp, n))"

text \<open>The bounds on \<^verbatim>\<open>snd_cwnd\<close> after the decision, then \<^verbatim>\<open>tcp_current_ssthresh\<close>.\<close>

definition nice_clamp :: "host \<Rightarrow> tcp_sock \<Rightarrow> nice \<Rightarrow> tcp_sock" where
  "nice_clamp h tp n =
     (let tp1 = (if snd_cwnd tp < 2 \<and> fractional_cwnd n = 2 then tp\<lparr>snd_cwnd := 2\<rparr>
                 else if snd_cwnd tp > snd_cwnd_clamp tp then tp\<lparr>snd_cwnd := snd_cwnd_clamp tp\<rparr>
                 else tp)
      in tp1\<lparr>snd_ssthresh := tcp_current_ssthresh h tp1\<rparr>)"

text \<open>
  The once-per-round decision with more than two samples. \<^verbatim>\<open>fd\<close> is the static
  \<^verbatim>\<open>fraction_divisor\<close>. The divisions by \<^verbatim>\<open>rtt\<close> (that is \<^verbatim>\<open>minRTT\<close>) and by \<^verbatim>\<open>baseRTT\<close> come
  first; the division by \<^verbatim>\<open>fraction_divisor\<close> is unsigned and is reached only outside
  slow start.
\<close>

definition nice_vegas ::
  "nice_params \<Rightarrow> host \<Rightarrow> s32 \<Rightarrow> tcp_sock \<Rightarrow> nice \<Rightarrow> u32 \<Rightarrow> (tcp_sock \<times> nice) option" where
  "nice_vegas p h fd tp n acked =
     (let rtt = minRTT n in
      if rtt = 0 \<or> baseRTT n = 0 then None
      else
        let target_cwnd = (ucast (snd_cwnd tp) * ucast (baseRTT n) :: u64) div ucast rtt;
            diff = snd_cwnd tp * (rtt - baseRTT n) div baseRTT n;
            r = (if diff > gamma p \<and> tcp_in_slow_start h tp then
                   (let tp1 = tp\<lparr>snd_cwnd := min (snd_cwnd tp) (ucast target_cwnd + 1)\<rparr>
                    in Some (tp1\<lparr>snd_ssthresh := tcp_nice_ssthresh tp1\<rparr>, n\<lparr>numCong := 0\<rparr>))
                 else if tcp_in_slow_start h tp then Some (tcp_slow_start h tp acked, n)
                 else if fd = 0 then None
                 else if ucast (numCong n) > snd_cwnd tp div fd
                 then Some (nice_mult_decrease p tp n)
                 else Some (nice_cong_avoidance p tp n diff))
        in case r of
             None \<Rightarrow> None
           | Some (tp2, n2) \<Rightarrow> Some (nice_clamp h tp2 n2, n2))"

definition tcp_nice_cong_avoid ::
  "nice_params \<Rightarrow> host \<Rightarrow> s32 \<Rightarrow> tcp_sock \<Rightarrow> nice \<Rightarrow> u32 \<Rightarrow> u32 \<Rightarrow> (tcp_sock \<times> nice) option"
  where
  "tcp_nice_cong_avoid p h fd tp0 n0 ack acked =
     (let (tp, n) = nice_pacing tp0 n0 in
      if doing_nice_now n = 0 then Some (nice_reno_fallback p h tp n ack acked)
      else if after ack (beg_snd_nxt n) then
        (let n1 = n\<lparr>beg_snd_nxt := snd_nxt tp\<rparr>;
             r = (if cntRTT n1 \<le> 2 then Some (nice_reno_fallback p h tp n1 ack acked)
                  else nice_vegas p h fd tp n1 acked)
         in case r of
              None \<Rightarrow> None
            | Some (tp2, n2) \<Rightarrow>
                Some (tp2, n2\<lparr>cntRTT := 0, minRTT := 0x7fffffff, maxRTT := 0, numCong := 0\<rparr>))
      else if tcp_in_slow_start h tp then Some (tcp_slow_start h tp acked, n)
      else Some (tp, n))"

section \<open>TCP Westwood+LP (\<^verbatim>\<open>tcp_westwoodlp.c\<close>)\<close>

record westwood =
  bw_ns_est :: u32
  bw_est :: u32
  rtt_win_sx :: u32
  bk :: u32
  w_snd_una :: u32
  cumul_ack :: u32
  accounted :: u32
  rtt :: u32
  rtt_min :: u32
  first_ack :: u8
  reset_rtt_min :: u8
  delay_min :: u32
  delay_max :: u32
  dmin_avg :: u32
  dmax_avg :: u32
  delay_loss :: u32

definition TCP_WESTWOOD_RTT_MIN :: "host \<Rightarrow> s32" where
  "TCP_WESTWOOD_RTT_MIN h = c_sdiv (HZ h) 20"

definition TCP_WESTWOOD_INIT_RTT :: "host \<Rightarrow> s32" where
  "TCP_WESTWOOD_INIT_RTT h = 20 * HZ h"

text \<open>\<^verbatim>\<open>now\<close> is the value of \<^verbatim>\<open>tcp_time_stamp\<close> when the function runs.\<close>

definition tcp_westwood_init :: "host \<Rightarrow> tcp_sock \<Rightarrow> u32 \<Rightarrow> westwood \<Rightarrow> westwood" where
  "tcp_westwood_init h tp now w =
     w\<lparr>bk := 0, bw_ns_est := 0, bw_est := 0, accounted := 0, cumul_ack := 0,
       reset_rtt_min := 1, rtt := TCP_WESTWOOD_INIT_RTT h, rtt_min := TCP_WESTWOOD_INIT_RTT h,
       rtt_win_sx := now, w_snd_una := snd_una tp, first_ack := 1,
       delay_min := 0, delay_max := 0, dmax_avg := 0, dmin_avg := 0, delay_loss := 1\<rparr>"

definition westwood_do_filter :: "u32 \<Rightarrow> u32 \<Rightarrow> u32" where
  "westwood_do_filter a b = drop_bit 3 (7 * a + b)"

definition westwood_filter :: "westwood \<Rightarrow> u32 \<Rightarrow> westwood option" where
  "westwood_filter w delta =
     (if delta = 0 then None
      else if bw_ns_est w = 0 \<and> bw_est w = 0 then
        (let w1 = w\<lparr>bw_ns_est := bk w div delta\<rparr> in Some (w1\<lparr>bw_est := bw_ns_est w1\<rparr>))
      else
        (let w1 = w\<lparr>bw_ns_est := westwood_do_filter (bw_ns_est w) (bk w div delta)\<rparr>
         in Some (w1\<lparr>bw_est := westwood_do_filter (bw_est w1) (bw_ns_est w1)\<rparr>)))"

definition tcp_westwood_pkts_acked :: "host \<Rightarrow> westwood \<Rightarrow> u32 \<Rightarrow> s32 \<Rightarrow> westwood" where
  "tcp_westwood_pkts_acked h w cnt rtt_us =
     (if sint rtt_us > 0 then w\<lparr>rtt := usecs_to_jiffies h rtt_us\<rparr> else w)"

text \<open>
  \<^verbatim>\<open>delta\<close> is an \<^verbatim>\<open>s32\<close>; its comparison with the \<^verbatim>\<open>u32\<close> maximum is unsigned, and
  \<^verbatim>\<open>westwood_filter\<close> receives it as a \<^verbatim>\<open>u32\<close>.
\<close>

definition westwood_update_window ::
  "host \<Rightarrow> tcp_sock \<Rightarrow> u32 \<Rightarrow> westwood \<Rightarrow> westwood option" where
  "westwood_update_window h tp now w =
     (let delta = now - rtt_win_sx w;
          w1 = (if first_ack w \<noteq> 0 then w\<lparr>w_snd_una := snd_una tp, first_ack := 0\<rparr> else w)
      in if rtt w1 \<noteq> 0 \<and> delta > max (rtt w1) (TCP_WESTWOOD_RTT_MIN h)
         then (case westwood_filter w1 delta of
                 None \<Rightarrow> None
               | Some w2 \<Rightarrow> Some (w2\<lparr>bk := 0, rtt_win_sx := now\<rparr>))
         else Some w1)"

definition westwood_update_delay :: "u32 \<Rightarrow> u32 \<Rightarrow> u32" where
  "westwood_update_delay r rtt_avg =
     (if rtt_avg \<noteq> 0 \<and> rtt_avg \<noteq> 1
      then (let r1 = r - drop_bit 2 rtt_avg in rtt_avg + r1)
      else push_bit 2 r)"

definition update_rtt_min :: "westwood \<Rightarrow> westwood" where
  "update_rtt_min w =
     (if reset_rtt_min w \<noteq> 0 then w\<lparr>rtt_min := rtt w, reset_rtt_min := 0\<rparr>
      else w\<lparr>rtt_min := min (rtt w) (rtt_min w)\<rparr>)"

definition westwood_fast_bw :: "host \<Rightarrow> tcp_sock \<Rightarrow> u32 \<Rightarrow> westwood \<Rightarrow> westwood option" where
  "westwood_fast_bw h tp now w =
     (case westwood_update_window h tp now w of
        None \<Rightarrow> None
      | Some w1 \<Rightarrow>
          Some (update_rtt_min
                  (w1\<lparr>bk := bk w1 + (snd_una tp - w_snd_una w1), w_snd_una := snd_una tp\<rparr>)))"

text \<open>\<^verbatim>\<open>westwood_acked_count\<close> returns the updated state and \<^verbatim>\<open>cumul_ack\<close>.\<close>

definition westwood_acked_count :: "tcp_sock \<Rightarrow> westwood \<Rightarrow> westwood \<times> u32" where
  "westwood_acked_count tp w =
     (let w1 = w\<lparr>cumul_ack := snd_una tp - w_snd_una w\<rparr>;
          w2 = (if cumul_ack w1 = 0
                then w1\<lparr>accounted := accounted w1 + mss_cache tp, cumul_ack := mss_cache tp\<rparr>
                else w1);
          w3 = (if cumul_ack w2 > mss_cache tp then
                  (if accounted w2 \<ge> cumul_ack w2
                   then w2\<lparr>accounted := accounted w2 - cumul_ack w2, cumul_ack := mss_cache tp\<rparr>
                   else w2\<lparr>cumul_ack := cumul_ack w2 - accounted w2, accounted := 0\<rparr>)
                else w2);
          w4 = w3\<lparr>w_snd_una := snd_una tp\<rparr>
      in (w4, cumul_ack w4))"

definition tcp_westwood_bw_rttmin :: "tcp_sock \<Rightarrow> westwood \<Rightarrow> u32 option" where
  "tcp_westwood_bw_rttmin tp w =
     (if mss_cache tp = 0 then None
      else Some (max ((bw_est w * rtt_min w) div mss_cache tp) 2))"

definition tcp_westwood_ack ::
  "host \<Rightarrow> tcp_sock \<Rightarrow> u32 \<Rightarrow> westwood \<Rightarrow> u32 \<Rightarrow> westwood option" where
  "tcp_westwood_ack h tp now w ack_flags =
     (if ack_flags AND CA_ACK_SLOWPATH \<noteq> 0 then
        (case westwood_update_window h tp now w of
           None \<Rightarrow> None
         | Some w1 \<Rightarrow>
             let (w2, c) = westwood_acked_count tp w1;
                 w3 = update_rtt_min (w2\<lparr>bk := bk w2 + c\<rparr>);
                 w4 = (if delay_min w3 = 0 \<and> delay_max w3 = 0 \<and> rtt w3 \<noteq> TCP_WESTWOOD_INIT_RTT h
                       then w3\<lparr>delay_min := rtt w3, delay_max := rtt w3\<rparr> else w3)
             in Some (if rtt w4 > delay_max w4 then w4\<lparr>delay_max := rtt w4\<rparr>
                      else if rtt w4 < delay_min w4 then w4\<lparr>delay_min := rtt w4\<rparr>
                      else w4))
      else westwood_fast_bw h tp now w)"

text \<open>
  The early window reduction test at the head of \<^verbatim>\<open>tcp_westwood_cong_avoid\<close>. The result
  holds \<^verbatim>\<open>queue_length\<close> and \<^verbatim>\<open>ewr_thresh\<close>, and names the branch that computed them:
  the first (\<^verbatim>\<open>dmin_avg\<close>, \<^verbatim>\<open>dmax_avg\<close>), the second (\<^verbatim>\<open>delay_min\<close>, \<^verbatim>\<open>delay_max\<close>), or neither,
  which leaves both at their initial 0. \<^verbatim>\<open>bt\<close> is the module parameter \<^verbatim>\<open>beta\<close>. All the
  arithmetic is unsigned and 32 bits wide.
\<close>

datatype ewr_branch = EWR_AVERAGES | EWR_ENVELOPE | EWR_NONE

definition westwood_ewr ::
  "s32 \<Rightarrow> host \<Rightarrow> tcp_sock \<Rightarrow> westwood \<Rightarrow> (ewr_branch \<times> u32 \<times> u32) option" where
  "westwood_ewr bt h tp w =
     (let r = (if delay_loss w > 1 then rtt w else 0) in
      if dmin_avg w \<noteq> dmax_avg w \<and> dmax_avg w \<noteq> 0 then
        (if advmss tp = 0 \<or> delay_loss w = 0 \<or> dmax_avg w = 0 then None
         else Some (EWR_AVERAGES,
                    snd_cwnd tp - (bw_est w * rtt_min w) div ucast (advmss tp),
                    (((bt * (100 - (100 * push_bit 2 r) div delay_loss w)) div 100)
                       * (100 - (100 * dmin_avg w) div dmax_avg w)) div 100))
      else if delay_min w \<noteq> delay_max w \<and> delay_max w \<noteq> 0 \<and> \<not> tcp_in_slow_start h tp then
        (if advmss tp = 0 \<or> delay_loss w = 0 \<or> delay_max w = 0 then None
         else Some (EWR_ENVELOPE,
                    snd_cwnd tp - (bw_est w * rtt_min w) div ucast (advmss tp),
                    (((bt * (100 - (100 * push_bit 2 r) div delay_loss w)) div 100)
                       * (100 - (100 * delay_min w) div delay_max w)) div 100))
      else Some (EWR_NONE, 0, 0))"

definition tcp_westwood_cong_avoid ::
  "s32 \<Rightarrow> host \<Rightarrow> tcp_sock \<Rightarrow> westwood \<Rightarrow> u32 \<Rightarrow> u32 \<Rightarrow> (tcp_sock \<times> westwood) option" where
  "tcp_westwood_cong_avoid bt h tp w ack acked =
     (case westwood_ewr bt h tp w of
        None \<Rightarrow> None
      | Some (b, queue_length, ewr_thresh) \<Rightarrow>
          if queue_length > ewr_thresh then
            (case tcp_westwood_bw_rttmin tp w of
               None \<Rightarrow> None
             | Some v \<Rightarrow>
                 Some (tp\<lparr>snd_ssthresh := v, snd_cwnd := v\<rparr>,
                       w\<lparr>dmin_avg := westwood_update_delay (delay_min w) (dmin_avg w),
                         dmax_avg := westwood_update_delay (delay_max w) (dmax_avg w),
                         delay_min := rtt w, delay_max := rtt w\<rparr>))
          else Some (tcp_reno_cong_avoid h tp ack acked, w))"

definition tcp_westwood_event ::
  "tcp_sock \<Rightarrow> westwood \<Rightarrow> tcp_ca_event \<Rightarrow> (tcp_sock \<times> westwood) option" where
  "tcp_westwood_event tp w event =
     (case event of
        CA_EVENT_COMPLETE_CWR \<Rightarrow>
          (case tcp_westwood_bw_rttmin tp w of
             None \<Rightarrow> None
           | Some v \<Rightarrow> Some (tp\<lparr>snd_ssthresh := v, snd_cwnd := v\<rparr>, w))
      | CA_EVENT_LOSS \<Rightarrow>
          (case tcp_westwood_bw_rttmin tp w of
             None \<Rightarrow> None
           | Some v \<Rightarrow>
               Some (tp\<lparr>snd_ssthresh := v\<rparr>,
                     w\<lparr>delay_loss := westwood_update_delay (rtt w) (delay_loss w),
                       reset_rtt_min := 1\<rparr>))
      | _ \<Rightarrow> Some (tp, w))"

section \<open>The modules driven through their operation tables\<close>

text \<open>
  The host calls a module through its \<^verbatim>\<open>tcp_congestion_ops\<close> table. An event names the
  operation and carries its arguments, with the \<^verbatim>\<open>tcp_sock\<close> as the host presents it at
  that call (the host owns it and may have changed it since the last call). The state of
  TCP Nice is its private area and the static \<^verbatim>\<open>fraction_divisor\<close>; that of Westwood+LP is
  its private area. A run stops with \<open>None\<close> at a division by zero.
\<close>

datatype nice_event =
    N_INIT tcp_sock
  | N_PKTS_ACKED u32 s32
  | N_SET_STATE tcp_sock u8
  | N_CWND_EVENT tcp_sock tcp_ca_event
  | N_CONG_AVOID tcp_sock u32 u32

fun nice_step :: "nice_params \<Rightarrow> host \<Rightarrow> s32 \<times> nice \<Rightarrow> nice_event \<Rightarrow> (s32 \<times> nice) option" where
  "nice_step p h (fd, n) (N_INIT tp) = tcp_nice_init p tp n"
| "nice_step p h (fd, n) (N_PKTS_ACKED cnt rtt_us) = Some (fd, tcp_nice_pkts_acked p n cnt rtt_us)"
| "nice_step p h (fd, n) (N_SET_STATE tp ca_state) = Some (fd, tcp_nice_state tp n ca_state)"
| "nice_step p h (fd, n) (N_CWND_EVENT tp event) = tcp_nice_cwnd_event p tp (fd, n) event"
| "nice_step p h (fd, n) (N_CONG_AVOID tp ack acked) =
     (case tcp_nice_cong_avoid p h fd tp n ack acked of
        None \<Rightarrow> None
      | Some (tp', n') \<Rightarrow> Some (fd, n'))"

fun nice_run :: "nice_params \<Rightarrow> host \<Rightarrow> s32 \<times> nice \<Rightarrow> nice_event list \<Rightarrow> (s32 \<times> nice) option"
  where
  "nice_run p h s [] = Some s"
| "nice_run p h s (e # es) =
     (case nice_step p h s e of None \<Rightarrow> None | Some s' \<Rightarrow> nice_run p h s' es)"

text \<open>The second argument of \<open>W_INIT\<close> and of \<open>W_ACK\<close> is \<^verbatim>\<open>tcp_time_stamp\<close> at the call.\<close>

datatype westwood_event =
    W_INIT tcp_sock u32
  | W_PKTS_ACKED u32 s32
  | W_ACK tcp_sock u32 u32
  | W_CONG_AVOID tcp_sock u32 u32
  | W_CWND_EVENT tcp_sock tcp_ca_event

fun westwood_step :: "s32 \<Rightarrow> host \<Rightarrow> westwood \<Rightarrow> westwood_event \<Rightarrow> westwood option" where
  "westwood_step bt h w (W_INIT tp now) = Some (tcp_westwood_init h tp now w)"
| "westwood_step bt h w (W_PKTS_ACKED cnt rtt_us) = Some (tcp_westwood_pkts_acked h w cnt rtt_us)"
| "westwood_step bt h w (W_ACK tp now ack_flags) = tcp_westwood_ack h tp now w ack_flags"
| "westwood_step bt h w (W_CONG_AVOID tp ack acked) =
     map_option snd (tcp_westwood_cong_avoid bt h tp w ack acked)"
| "westwood_step bt h w (W_CWND_EVENT tp event) = map_option snd (tcp_westwood_event tp w event)"

fun westwood_run :: "s32 \<Rightarrow> host \<Rightarrow> westwood \<Rightarrow> westwood_event list \<Rightarrow> westwood option" where
  "westwood_run bt h w [] = Some w"
| "westwood_run bt h w (e # es) =
     (case westwood_step bt h w e of None \<Rightarrow> None | Some w' \<Rightarrow> westwood_run bt h w' es)"

text \<open>
  What the host must supply for the divisions by host values: a nonzero \<^verbatim>\<open>mss_cache\<close> and
  \<^verbatim>\<open>advmss\<close> in the \<^verbatim>\<open>tcp_sock\<close> of every call.
\<close>

fun westwood_event_ok :: "westwood_event \<Rightarrow> bool" where
  "westwood_event_ok (W_CONG_AVOID tp ack acked) \<longleftrightarrow> mss_cache tp \<noteq> 0 \<and> advmss tp \<noteq> 0"
| "westwood_event_ok (W_CWND_EVENT tp event) \<longleftrightarrow> mss_cache tp \<noteq> 0"
| "westwood_event_ok _ \<longleftrightarrow> True"

section \<open>The host functions of Linux 4.4\<close>

text \<open>
  One instance of the host, after \<^verbatim>\<open>net/ipv4/tcp_cong.c\<close> and \<^verbatim>\<open>include/net/tcp.h\<close> of
  Linux 4.4, with \<^verbatim>\<open>HZ = 1000\<close>. It serves to run the modules on concrete inputs.
\<close>

definition linux_in_slow_start :: "tcp_sock \<Rightarrow> bool" where
  "linux_in_slow_start tp \<longleftrightarrow> snd_cwnd tp < snd_ssthresh tp"

definition linux_slow_start :: "tcp_sock \<Rightarrow> u32 \<Rightarrow> tcp_sock \<times> u32" where
  "linux_slow_start tp acked =
     (let cwnd = min (snd_cwnd tp + acked) (snd_ssthresh tp)
      in (tp\<lparr>snd_cwnd := min cwnd (snd_cwnd_clamp tp)\<rparr>, acked - (cwnd - snd_cwnd tp)))"

text \<open>
  \<^verbatim>\<open>tcp_cong_avoid_ai\<close> divides by \<^verbatim>\<open>w\<close>, which its callers take from \<^verbatim>\<open>snd_cwnd\<close>; no run
  below calls it.
\<close>

definition linux_cong_avoid_ai :: "tcp_sock \<Rightarrow> u32 \<Rightarrow> u32 \<Rightarrow> tcp_sock" where
  "linux_cong_avoid_ai tp w acked =
     (let tp1 = (if snd_cwnd_cnt tp \<ge> w
                 then tp\<lparr>snd_cwnd_cnt := 0, snd_cwnd := snd_cwnd tp + 1\<rparr> else tp);
          tp2 = tp1\<lparr>snd_cwnd_cnt := snd_cwnd_cnt tp1 + acked\<rparr>;
          tp3 = (if snd_cwnd_cnt tp2 \<ge> w then
                   (let delta = snd_cwnd_cnt tp2 div w
                    in tp2\<lparr>snd_cwnd_cnt := snd_cwnd_cnt tp2 - delta * w,
                           snd_cwnd := snd_cwnd tp2 + delta\<rparr>)
                 else tp2)
      in tp3\<lparr>snd_cwnd := min (snd_cwnd tp3) (snd_cwnd_clamp tp3)\<rparr>)"

definition linux_is_cwnd_limited :: "tcp_sock \<Rightarrow> bool" where
  "linux_is_cwnd_limited tp =
     (if linux_in_slow_start tp then snd_cwnd tp < 2 * max_packets_out tp
      else is_cwnd_limited tp)"

definition linux_reno_cong_avoid :: "tcp_sock \<Rightarrow> u32 \<Rightarrow> u32 \<Rightarrow> tcp_sock" where
  "linux_reno_cong_avoid tp ack acked =
     (if \<not> linux_is_cwnd_limited tp then tp
      else if linux_in_slow_start tp then
        (let (tp1, acked1) = linux_slow_start tp acked
         in if acked1 = 0 then tp1 else linux_cong_avoid_ai tp1 (snd_cwnd tp1) acked1)
      else linux_cong_avoid_ai tp (snd_cwnd tp) acked)"

text \<open>\<^verbatim>\<open>tcp_in_cwnd_reduction\<close> holds in the states \<^verbatim>\<open>TCP_CA_CWR\<close> (2) and \<^verbatim>\<open>TCP_CA_Recovery\<close> (3).\<close>

definition linux_current_ssthresh :: "tcp_sock \<Rightarrow> u32" where
  "linux_current_ssthresh tp =
     (if icsk_ca_state tp = 2 \<or> icsk_ca_state tp = 3 then snd_ssthresh tp
      else max (snd_ssthresh tp) (drop_bit 1 (snd_cwnd tp) + drop_bit 2 (snd_cwnd tp)))"

text \<open>With \<^verbatim>\<open>HZ = 1000\<close> a jiffy is 1000 microseconds, and the conversion rounds up.\<close>

definition linux_usecs_to_jiffies :: "u32 \<Rightarrow> u32" where
  "linux_usecs_to_jiffies u = ucast (((ucast u :: u64) + 999) div 1000)"

definition linux :: host where
  "linux =
     \<lparr>tcp_in_slow_start = linux_in_slow_start,
      tcp_slow_start = (\<lambda>tp acked. fst (linux_slow_start tp acked)),
      tcp_reno_cong_avoid = linux_reno_cong_avoid,
      tcp_current_ssthresh = linux_current_ssthresh,
      usecs_to_jiffies = linux_usecs_to_jiffies,
      HZ = 1000\<rparr>"

section \<open>Sequences of samples and concrete states\<close>

text \<open>A sequence of calls of \<^verbatim>\<open>tcp_nice_pkts_acked\<close>, each with its \<^verbatim>\<open>cnt\<close> and \<^verbatim>\<open>rtt_us\<close>.\<close>

definition nice_samples :: "nice_params \<Rightarrow> nice \<Rightarrow> (u32 \<times> s32) list \<Rightarrow> nice" where
  "nice_samples p n rs = foldl (\<lambda>m (cnt, rtt_us). tcp_nice_pkts_acked p m cnt rtt_us) n rs"

text \<open>
  Events that neither initialise Westwood+LP nor report a loss: between two such events
  the module sees no \<^verbatim>\<open>CA_EVENT_LOSS\<close>.
\<close>

fun westwood_no_loss :: "westwood_event \<Rightarrow> bool" where
  "westwood_no_loss (W_INIT tp now) \<longleftrightarrow> False"
| "westwood_no_loss (W_CWND_EVENT tp event) \<longleftrightarrow> event \<noteq> CA_EVENT_LOSS"
| "westwood_no_loss _ \<longleftrightarrow> True"

text \<open>
  Concrete inputs: a connection with a window of two segments outside slow start, the same
  connection in slow start, a zeroed private area, and the private areas after
  initialisation and in the middle of a round.
\<close>

definition tp_start :: tcp_sock where
  "tp_start =
     \<lparr>snd_nxt = 1000, snd_una = 0, snd_cwnd = 2, snd_cwnd_cnt = 0, snd_cwnd_clamp = 100,
      snd_ssthresh = 2, mss_cache = 1460, advmss = 1460, max_packets_out = 0,
      is_cwnd_limited = False, icsk_ca_state = 0\<rparr>"

definition tp_slow_start :: tcp_sock where
  "tp_slow_start = tp_start\<lparr>snd_cwnd := 4, snd_ssthresh := 10\<rparr>"

definition nice_zero :: nice where
  "nice_zero =
     \<lparr>beg_snd_nxt = 0, beg_snd_una = 0, beg_snd_cwnd = 0, doing_nice_now = 0, cntRTT = 0,
      minRTT = 0, maxRTT = 0, baseRTT = 0, numCong = 0, fractional_cwnd = 0, nice_timer = 0\<rparr>"

definition nice_start :: nice where
  "nice_start =
     \<lparr>beg_snd_nxt = 1000, beg_snd_una = 0, beg_snd_cwnd = 0, doing_nice_now = 1, cntRTT = 0,
      minRTT = 0x7fffffff, maxRTT = 0, baseRTT = 0x7fffffff, numCong = 0, fractional_cwnd = 2,
      nice_timer = 0\<rparr>"

definition nice_mid_round :: nice where
  "nice_mid_round =
     \<lparr>beg_snd_nxt = 1000, beg_snd_una = 0, beg_snd_cwnd = 0, doing_nice_now = 1, cntRTT = 1,
      minRTT = 10, maxRTT = 20, baseRTT = 10, numCong = 0, fractional_cwnd = 2,
      nice_timer = 0\<rparr>"

definition westwood_zero :: westwood where
  "westwood_zero =
     \<lparr>bw_ns_est = 0, bw_est = 0, rtt_win_sx = 0, bk = 0, w_snd_una = 0, cumul_ack = 0,
      accounted = 0, rtt = 0, rtt_min = 0, first_ack = 0, reset_rtt_min = 0, delay_min = 0,
      delay_max = 0, dmin_avg = 0, dmax_avg = 0, delay_loss = 0\<rparr>"

definition westwood_start :: westwood where
  "westwood_start = tcp_westwood_init linux tp_start 5000 westwood_zero"

definition westwood_envelope :: westwood where
  "westwood_envelope = westwood_start\<lparr>rtt := 20, rtt_min := 10, delay_min := 10, delay_max := 40\<rparr>"

text \<open>\<open>k\<close> consecutive runs of the pacing statement.\<close>

fun nice_ticks :: "nat \<Rightarrow> tcp_sock \<times> nice \<Rightarrow> tcp_sock \<times> nice" where
  "nice_ticks 0 s = s"
| "nice_ticks (Suc k) s = (case nice_ticks k s of (tp, n) \<Rightarrow> nice_pacing tp n)"

text \<open>
  More concrete inputs: a private area that has just entered the pacing with a fractional
  window of 8, a connection that has four segments in flight, the end of a round with
  three samples, and a private area with a fractional window of 32 at the tick where it
  sends.
\<close>

definition nice_waiting :: nice where
  "nice_waiting =
     \<lparr>beg_snd_nxt = 2000, beg_snd_una = 0, beg_snd_cwnd = 0, doing_nice_now = 1, cntRTT = 0,
      minRTT = 0x7fffffff, maxRTT = 0, baseRTT = 100, numCong = 0, fractional_cwnd = 8,
      nice_timer = 0\<rparr>"

definition tp_limited :: tcp_sock where
  "tp_limited = tp_start\<lparr>snd_nxt := 2500, max_packets_out := 4\<rparr>"

definition nice_round_end :: nice where
  "nice_round_end = nice_mid_round\<lparr>beg_snd_nxt := 500, cntRTT := 3\<rparr>"

definition nice_sub_unit :: nice where
  "nice_sub_unit =
     \<lparr>beg_snd_nxt = 3000, beg_snd_una = 0, beg_snd_cwnd = 0, doing_nice_now = 1, cntRTT = 3,
      minRTT = 100, maxRTT = 300, baseRTT = 100, numCong = 2, fractional_cwnd = 32,
      nice_timer = 32\<rparr>"

text \<open>
  A run from initialisation. Every round has three samples, two of them above the
  congestion threshold, and ends on an ACK past the saved right edge at a tick where the
  pacing sends; the ACKs in between are below the edge. The host presents a window and a
  slow start threshold of two segments throughout.
\<close>

definition nice_round_samples :: "nice_event list" where
  "nice_round_samples = [N_PKTS_ACKED 1 99, N_PKTS_ACKED 1 299, N_PKTS_ACKED 1 299]"

definition nice_cap_trace :: "nice_event list" where
  "nice_cap_trace =
     N_INIT tp_start # nice_round_samples @
     [N_CONG_AVOID (tp_start\<lparr>snd_nxt := 2000\<rparr>) 1001 1] @
     replicate 8 (N_CONG_AVOID (tp_start\<lparr>snd_nxt := 2500\<rparr>) 1500 1) @ nice_round_samples @
     [N_CONG_AVOID (tp_start\<lparr>snd_nxt := 3000\<rparr>) 2001 1] @
     replicate 31 (N_CONG_AVOID (tp_start\<lparr>snd_nxt := 3500\<rparr>) 2500 1) @ nice_round_samples"

text \<open>
  What the divisions of the two modules need of the private state. For TCP Nice: a nonzero
  \<^verbatim>\<open>fraction_divisor\<close>, and \<^verbatim>\<open>minRTT\<close> and \<^verbatim>\<open>baseRTT\<close> between 1 and the initial
  \<^verbatim>\<open>0x7fffffff\<close>. For Westwood+LP: a nonzero \<^verbatim>\<open>delay_loss\<close>, which a nonzero \<^verbatim>\<open>rtt\<close> below
  \<open>2 ^ 30\<close> jiffies keeps nonzero at a loss.
\<close>

definition nice_divisors_ok :: "s32 \<times> nice \<Rightarrow> bool" where
  "nice_divisors_ok s \<longleftrightarrow>
     fst s \<noteq> 0 \<and> 1 \<le> minRTT (snd s) \<and> minRTT (snd s) \<le> 0x7fffffff \<and>
     1 \<le> baseRTT (snd s) \<and> baseRTT (snd s) \<le> 0x7fffffff"

definition westwood_divisors_ok :: "westwood \<Rightarrow> bool" where
  "westwood_divisors_ok w \<longleftrightarrow> rtt w \<noteq> 0 \<and> rtt w < 0x40000000 \<and> delay_loss w \<noteq> 0"

text \<open>
  More concrete inputs: events for Westwood+LP, three samples of \<^verbatim>\<open>0x7ffffffe\<close>, and
  the parameters with \<^verbatim>\<open>fraction = 200\<close>.
\<close>

definition westwood_sample_events :: "westwood_event list" where
  "westwood_sample_events =
     [W_PKTS_ACKED 1 100000, W_ACK tp_start 6000 1, W_CWND_EVENT tp_start CA_EVENT_LOSS,
      W_ACK tp_start 6300 0, W_CONG_AVOID tp_start 1000 1]"

definition nice_long_samples :: "(u32 \<times> s32) list" where
  "nice_long_samples = [(1, 0x7ffffffe), (1, 0x7ffffffe), (1, 0x7ffffffe)]"

definition nice_fraction_200 :: nice_params where
  "nice_fraction_200 = nice_defaults\<lparr>fraction := 200\<rparr>"

section \<open>Signed and unsigned readings of a word\<close>

lemma s32_nonneg_uint: "0 \<le> sint (r::32 word) \<Longrightarrow> sint r = uint r"
proof -
  assume a: "0 \<le> sint r"
  have "uint r = take_bit 32 (sint r)" by (simp add: uint_sint)
  also have "\<dots> = sint r" using a sint_lt[of r] by (simp add: take_bit_int_eq_self)
  finally show ?thesis by simp
qed

lemma s32_nonneg_unat: "0 \<le> sint (r::32 word) \<Longrightarrow> unat r < 2147483648"
proof -
  assume a: "0 \<le> sint r"
  have "int (unat r) = sint r" using s32_nonneg_uint[OF a] by simp
  moreover have "sint r < 2147483648" using sint_lt[of r] by simp
  ultimately show ?thesis by linarith
qed

lemma unat_u32_less: "unat (x::32 word) < 4294967296"
  using unsigned_less[of x, where 'a=nat] by simp

lemma s32_nonneg_succ: "0 \<le> sint (r::32 word) \<Longrightarrow> unat (r + 1) = unat r + 1"
proof -
  assume a: "0 \<le> sint r"
  have "unat r + unat (1::32 word) < 2^LENGTH(32)" using s32_nonneg_unat[OF a] by simp
  then have "unat (r + 1) = unat r + unat (1::32 word)" by (rule unat_add_lem[THEN iffD1])
  then show ?thesis by simp
qed

lemma s32_nonneg_le_succ: "0 \<le> sint (r::32 word) \<Longrightarrow> r \<le> r + 1"
  by (simp add: word_le_nat_alt s32_nonneg_succ)

lemma unat_ucast_u32_u64: "unat (ucast (t::32 word) :: u64) = unat t"
proof -
  have "unat t < 2^64" using unat_u32_less[of t] by simp
  then show ?thesis by (simp add: unsigned_ucast_eq take_bit_nat_eq_self)
qed

lemma scast_nonneg: "0 \<le> sint (t::32 word) \<Longrightarrow> (scast t :: u64) = ucast t"
  using s32_nonneg_uint[of t] by (simp only: scast_eq ucast_eq)

section \<open>The concrete states\<close>

lemma linux_sel:
  "tcp_in_slow_start linux = linux_in_slow_start"
  "tcp_slow_start linux = (\<lambda>tp acked. fst (linux_slow_start tp acked))"
  "tcp_reno_cong_avoid linux = linux_reno_cong_avoid"
  "tcp_current_ssthresh linux = linux_current_ssthresh"
  "usecs_to_jiffies linux = linux_usecs_to_jiffies"
  "HZ linux = 1000"
  by (simp_all add: linux_def)

lemma linux_jiffies_100: "linux_usecs_to_jiffies 100000 = 100"
  by (simp add: linux_usecs_to_jiffies_def)

lemma linux_jiffies_120: "linux_usecs_to_jiffies 120000 = 120"
  by (simp add: linux_usecs_to_jiffies_def)

lemma nice_start_init: "tcp_nice_init nice_defaults tp_start nice_zero = Some (2, nice_start)"
  by (simp add: tcp_nice_init_def nice_defaults_def tp_start_def nice_zero_def nice_start_def
      nice_enable_def c_sdiv_def)

lemma westwood_start_eq:
  "westwood_start =
     \<lparr>bw_ns_est = 0, bw_est = 0, rtt_win_sx = 5000, bk = 0, w_snd_una = 0, cumul_ack = 0,
      accounted = 0, rtt = 20000, rtt_min = 20000, first_ack = 1, reset_rtt_min = 1, delay_min = 0,
      delay_max = 0, dmin_avg = 0, dmax_avg = 0, delay_loss = 1\<rparr>"
  by (simp add: westwood_start_def tcp_westwood_init_def westwood_zero_def tp_start_def
      TCP_WESTWOOD_INIT_RTT_def linux_def)

lemma nice_mid_round_12:
  "tcp_nice_pkts_acked nice_defaults nice_mid_round 1 12 =
     nice_mid_round\<lparr>cntRTT := 2, numCong := 1\<rparr>"
  by (simp add: tcp_nice_pkts_acked_def nice_mid_round_def Let_def nice_defaults_def cong_threshold_def)

section \<open>RTT samples in TCP Nice\<close>

lemma pkts_acked_baseRTT_le: "baseRTT (tcp_nice_pkts_acked p n cnt r) \<le> baseRTT n"
  by (auto simp add: tcp_nice_pkts_acked_def Let_def)

lemma pkts_acked_minRTT:
  "0 \<le> sint r \<Longrightarrow> minRTT (tcp_nice_pkts_acked p n cnt r) = min (minRTT n) (r + 1)"
  by (simp add: tcp_nice_pkts_acked_def Let_def)

lemma pkts_acked_maxRTT_ge:
  "0 \<le> sint r \<Longrightarrow> r + 1 \<le> maxRTT (tcp_nice_pkts_acked p n cnt r)"
  by (simp add: tcp_nice_pkts_acked_def Let_def)

lemma nice_samples_baseRTT_le: "baseRTT (nice_samples p n rs) \<le> baseRTT n"
proof (induction rs rule: rev_induct)
  case Nil
  show ?case by (simp add: nice_samples_def)
next
  case (snoc x xs)
  obtain c r where x: "x = (c, r)" by (cases x)
  have "baseRTT (nice_samples p n (xs @ [x])) \<le> baseRTT (nice_samples p n xs)"
    by (simp add: nice_samples_def x pkts_acked_baseRTT_le)
  with snoc show ?case by simp
qed

lemma pkts_acked_numCong:
  "0 \<le> sint r \<Longrightarrow>
   numCong (tcp_nice_pkts_acked p n cnt r) =
     (if cong_threshold p (tcp_nice_pkts_acked p n cnt r) < ucast (r + 1)
      then numCong n + 1 else numCong n)"
  by (simp add: tcp_nice_pkts_acked_def Let_def cong_threshold_def)

lemma unat_cong_threshold:
  assumes "0 \<le> sint (threshold p)" "sint (threshold p) \<le> 100"
  shows "unat (cong_threshold p n) =
    ((100 - unat (threshold p)) * unat (baseRTT n) + (unat (threshold p) * unat (maxRTT n)) mod 4294967296) div 100"
proof -
  let ?t = "threshold p"
  have "int (unat ?t) = sint ?t" using s32_nonneg_uint[OF assms(1)] by simp
  then have t100: "unat ?t \<le> 100" using assms(2) by linarith
  have sc: "(scast ?t :: u64) = ucast ?t" using assms(1) by (rule scast_nonneg)
  have u1: "unat (ucast ?t :: u64) = unat ?t" by (rule unat_ucast_u32_u64)
  have le: "(ucast ?t :: u64) \<le> 100" using t100 u1 by (simp add: word_le_nat_alt)
  have a: "unat ((100::u64) - ucast ?t) = 100 - unat ?t"
    using unat_sub[OF le] u1 by simp
  have b: "unat (ucast (baseRTT n) :: u64) = unat (baseRTT n)" by (rule unat_ucast_u32_u64)
  have bl: "unat (baseRTT n) < 4294967296" by (rule unat_u32_less)
  have pb: "(100 - unat ?t) * unat (baseRTT n) \<le> 100 * 4294967296"
    using bl by (intro mult_mono) auto
  have c: "unat (((100::u64) - ucast ?t) * ucast (baseRTT n)) = (100 - unat ?t) * unat (baseRTT n)"
  proof -
    have "unat ((100::u64) - ucast ?t) * unat (ucast (baseRTT n) :: u64) < 2 ^ LENGTH(64)"
      using pb a b by simp
    then have "unat (((100::u64) - ucast ?t) * ucast (baseRTT n))
        = unat ((100::u64) - ucast ?t) * unat (ucast (baseRTT n) :: u64)"
      by (rule unat_mult_lem[THEN iffD1])
    then show ?thesis using a b by simp
  qed
  have d: "unat (ucast (?t * maxRTT n) :: u64) = (unat ?t * unat (maxRTT n)) mod 4294967296"
    by (simp add: unat_ucast_u32_u64 unat_word_ariths)
  have e: "unat (((100::u64) - ucast ?t) * ucast (baseRTT n) + ucast (?t * maxRTT n)) =
      (100 - unat ?t) * unat (baseRTT n) + (unat ?t * unat (maxRTT n)) mod 4294967296"
  proof -
    have "(unat ?t * unat (maxRTT n)) mod 4294967296 < 4294967296" by simp
    then have "unat (((100::u64) - ucast ?t) * ucast (baseRTT n)) + unat (ucast (?t * maxRTT n) :: u64)
        < 2 ^ LENGTH(64)"
      using pb c d by simp
    then have "unat (((100::u64) - ucast ?t) * ucast (baseRTT n) + ucast (?t * maxRTT n))
       = unat (((100::u64) - ucast ?t) * ucast (baseRTT n)) + unat (ucast (?t * maxRTT n) :: u64)"
      by (rule unat_add_lem[THEN iffD1])
    then show ?thesis using c d by simp
  qed
  show ?thesis
    unfolding cong_threshold_def sc using e by (simp add: unat_div)
qed

text \<open>
  C1 (as amended). After any sequence of calls of \<^verbatim>\<open>tcp_nice_pkts_acked\<close>, one more call
  never raises \<^verbatim>\<open>baseRTT\<close>, and \<^verbatim>\<open>baseRTT\<close> is at most what it was before the sequence.
  The module records a non-negative sample \<open>r\<close> as \<open>r + 1\<close> (so that no recorded RTT is
  zero): immediately after the call \<^verbatim>\<open>minRTT\<close> \<open>\<le> r + 1 \<le>\<close> \<^verbatim>\<open>maxRTT\<close>, and \<open>r \<le>\<close> \<^verbatim>\<open>maxRTT\<close>.
\<close>

theorem nice_rtt_filter:
  fixes p :: nice_params and n :: nice and rs :: "(u32 \<times> s32) list" and cnt :: u32 and r :: s32
  defines "m \<equiv> nice_samples p n rs"
  defines "m' \<equiv> tcp_nice_pkts_acked p m cnt r"
  shows "baseRTT m' \<le> baseRTT m \<and> baseRTT m \<le> baseRTT n \<and>
         (0 \<le> sint r \<longrightarrow> minRTT m' \<le> r + 1 \<and> r + 1 \<le> maxRTT m' \<and> r \<le> maxRTT m')"
proof -
  have "0 \<le> sint r \<Longrightarrow> r \<le> maxRTT m'"
    using s32_nonneg_le_succ[of r] pkts_acked_maxRTT_ge[of r p m cnt] by (simp add: m'_def)
  then show ?thesis
    by (simp add: m_def m'_def pkts_acked_baseRTT_le nice_samples_baseRTT_le pkts_acked_minRTT
        pkts_acked_maxRTT_ge)
qed

text \<open>The theorem at the sample 5 that follows the sample 9 on a fresh connection.\<close>

theorem nice_rtt_filter_witness:
  "0 \<le> sint (5::s32) \<and>
   baseRTT (tcp_nice_pkts_acked nice_defaults (nice_samples nice_defaults nice_start [(1, 9)]) 1 5) = 6 \<and>
   minRTT (tcp_nice_pkts_acked nice_defaults (nice_samples nice_defaults nice_start [(1, 9)]) 1 5) \<le> 5 + 1"
  using nice_rtt_filter[where p = nice_defaults and n = nice_start and rs = "[(1, 9)]" and cnt = 1 and r = 5]
  by (simp add: nice_samples_def tcp_nice_pkts_acked_def nice_start_def Let_def nice_defaults_def cong_threshold_def)

text \<open>
  The bound \<^verbatim>\<open>minRTT\<close> \<open>\<le> r\<close> on the sample as delivered fails: after the first sample 5 of
  a round \<^verbatim>\<open>minRTT\<close> is 6.
\<close>

theorem nice_rtt_filter_counterexample:
  "0 \<le> sint (5::s32) \<and> \<not> minRTT (tcp_nice_pkts_acked nice_defaults nice_start 1 5) \<le> 5"
  by (simp add: tcp_nice_pkts_acked_def nice_start_def Let_def nice_defaults_def cong_threshold_def)

text \<open>
  C5 (as amended). For a non-negative sample \<open>r\<close>, a parameter \<^verbatim>\<open>threshold\<close> between 0 and
  100, and as long as \<^verbatim>\<open>threshold * maxRTT\<close> fits in 32 bits, \<^verbatim>\<open>tcp_nice_pkts_acked\<close>
  increments \<^verbatim>\<open>numCong\<close> (modulo 256) if and only if \<open>r + 1\<close> exceeds
  \<^verbatim>\<open>((100 - threshold) * baseRTT + threshold * maxRTT) / 100\<close>, with \<^verbatim>\<open>baseRTT\<close> and \<^verbatim>\<open>maxRTT\<close>
  as the call has just updated them; otherwise \<^verbatim>\<open>numCong\<close> is unchanged.
\<close>

theorem nice_congestion_event:
  fixes p :: nice_params and n :: nice and cnt :: u32 and r :: s32
  defines "n' \<equiv> tcp_nice_pkts_acked p n cnt r"
  assumes "0 \<le> sint r"
    and "0 \<le> sint (threshold p)" and "sint (threshold p) \<le> 100"
    and "unat (threshold p) * unat (maxRTT n') < 4294967296"
  shows "numCong n' =
     (if unat r + 1 >
         ((100 - unat (threshold p)) * unat (baseRTT n') + unat (threshold p) * unat (maxRTT n')) div 100
      then numCong n + 1 else numCong n)"
proof -
  have t: "unat (cong_threshold p n') =
      ((100 - unat (threshold p)) * unat (baseRTT n') + unat (threshold p) * unat (maxRTT n')) div 100"
    using unat_cong_threshold[OF assms(3,4), of n'] assms(5) by simp
  have v: "unat (ucast (r + 1) :: u64) = unat r + 1"
    using s32_nonneg_succ[OF assms(2)] by (simp add: unat_ucast_u32_u64)
  have "cong_threshold p n' < ucast (r + 1) \<longleftrightarrow>
      ((100 - unat (threshold p)) * unat (baseRTT n') + unat (threshold p) * unat (maxRTT n')) div 100
        < unat r + 1"
    using t v by (simp add: word_less_nat_alt)
  then show ?thesis
    using pkts_acked_numCong[OF assms(2), of p n cnt] by (simp add: n'_def)
qed

text \<open>The theorem at the sample 12 in a round with \<^verbatim>\<open>baseRTT\<close> 10 and \<^verbatim>\<open>maxRTT\<close> 20.\<close>

theorem nice_congestion_event_witness:
  "0 \<le> sint (12::s32) \<and> 0 \<le> sint (threshold nice_defaults) \<and> sint (threshold nice_defaults) \<le> 100 \<and>
   unat (threshold nice_defaults) * unat (maxRTT (tcp_nice_pkts_acked nice_defaults nice_mid_round 1 12))
     < 4294967296 \<and>
   numCong (tcp_nice_pkts_acked nice_defaults nice_mid_round 1 12) = numCong nice_mid_round + 1"
  using nice_congestion_event[where r = 12 and p = nice_defaults and n = nice_mid_round and cnt = 1]
  by (simp add: nice_mid_round_12) (simp add: nice_defaults_def nice_mid_round_def)

text \<open>
  There the weighted threshold is 12: the sample 12 does not exceed it, and \<^verbatim>\<open>numCong\<close> is
  incremented all the same.
\<close>

theorem nice_congestion_event_counterexample:
  "0 \<le> sint (12::s32) \<and>
   \<not> unat (12::s32) >
       ((100 - unat (threshold nice_defaults))
           * unat (baseRTT (tcp_nice_pkts_acked nice_defaults nice_mid_round 1 12))
         + unat (threshold nice_defaults)
           * unat (maxRTT (tcp_nice_pkts_acked nice_defaults nice_mid_round 1 12))) div 100 \<and>
   numCong (tcp_nice_pkts_acked nice_defaults nice_mid_round 1 12) = numCong nice_mid_round + 1"
  by (simp add: nice_mid_round_12) (simp add: nice_defaults_def nice_mid_round_def)

section \<open>Rejected samples\<close>

text \<open>
  C6 (as amended). A negative sample leaves the private area of either module unchanged.
  A sample of zero leaves that of Westwood+LP unchanged; TCP Nice processes it as the
  value 1: the round's count goes up by one, and \<^verbatim>\<open>minRTT\<close> and \<^verbatim>\<open>baseRTT\<close> become at most 1.
\<close>

theorem rtt_sample_rejection:
  "(sint r < 0 \<longrightarrow> tcp_nice_pkts_acked p n cnt r = n \<and> tcp_westwood_pkts_acked h w cnt r = w) \<and>
   tcp_westwood_pkts_acked h w cnt 0 = w \<and>
   cntRTT (tcp_nice_pkts_acked p n cnt 0) = cntRTT n + 1 \<and>
   minRTT (tcp_nice_pkts_acked p n cnt 0) = min (minRTT n) 1 \<and>
   baseRTT (tcp_nice_pkts_acked p n cnt 0) = min (baseRTT n) 1"
  by (auto simp add: tcp_nice_pkts_acked_def tcp_westwood_pkts_acked_def Let_def min_def)

text \<open>The theorem at the sample \<open>-1\<close>.\<close>

theorem rtt_sample_rejection_witness:
  "sint (- 1 :: s32) < 0 \<and> tcp_nice_pkts_acked nice_defaults nice_start 1 (- 1) = nice_start \<and>
   tcp_westwood_pkts_acked linux westwood_start 1 (- 1) = westwood_start"
  using rtt_sample_rejection[where r = "- 1" and p = nice_defaults and n = nice_start and cnt = 1
      and h = linux and w = westwood_start]
  by simp

text \<open>On a fresh connection a sample of zero changes the private area of TCP Nice.\<close>

theorem rtt_sample_rejection_counterexample:
  "tcp_nice_pkts_acked nice_defaults nice_start 1 0 \<noteq> nice_start \<and>
   cntRTT (tcp_nice_pkts_acked nice_defaults nice_start 1 0) = 1 \<and>
   baseRTT (tcp_nice_pkts_acked nice_defaults nice_start 1 0) = 1"
  by (simp add: tcp_nice_pkts_acked_def nice_start_def Let_def nice_defaults_def cong_threshold_def)

section \<open>The early window reduction test\<close>

text \<open>
  C9 (as amended). With \<^verbatim>\<open>delay_min = 10\<close>, \<^verbatim>\<open>delay_max = 40\<close>, \<^verbatim>\<open>dmin_avg = dmax_avg = 0\<close> and
  \<^verbatim>\<open>beta = 3\<close>, the threshold is never computed by the branch of the averages. Outside slow
  start it is computed by the branch of \<^verbatim>\<open>delay_min\<close> and \<^verbatim>\<open>delay_max\<close>; in slow start
  neither branch runs, and \<^verbatim>\<open>ewr_thresh\<close> and \<^verbatim>\<open>queue_length\<close> stay 0.
\<close>

theorem westwood_ewr_branch:
  assumes "delay_min w = 10" and "delay_max w = 40" and "dmin_avg w = 0" and "dmax_avg w = 0"
  shows "map_option fst (westwood_ewr 3 h tp w) \<noteq> Some EWR_AVERAGES \<and>
         (tcp_in_slow_start h tp \<longrightarrow> westwood_ewr 3 h tp w = Some (EWR_NONE, 0, 0)) \<and>
         (\<not> tcp_in_slow_start h tp \<and> advmss tp \<noteq> 0 \<and> delay_loss w \<noteq> 0 \<longrightarrow>
            westwood_ewr 3 h tp w =
              Some (EWR_ENVELOPE,
                    snd_cwnd tp - (bw_est w * rtt_min w) div ucast (advmss tp),
                    (((3 * (100 - (100 * push_bit 2 (if delay_loss w > 1 then rtt w else 0))
                                    div delay_loss w)) div 100) * 75) div 100))"
  using assms by (simp add: westwood_ewr_def Let_def)

text \<open>The theorem on a connection outside slow start.\<close>

theorem westwood_ewr_branch_witness:
  "delay_min westwood_envelope = 10 \<and> delay_max westwood_envelope = 40 \<and>
   dmin_avg westwood_envelope = 0 \<and> dmax_avg westwood_envelope = 0 \<and>
   \<not> tcp_in_slow_start linux tp_start \<and> advmss tp_start \<noteq> 0 \<and> delay_loss westwood_envelope \<noteq> 0 \<and>
   westwood_ewr 3 linux tp_start westwood_envelope = Some (EWR_ENVELOPE, 2, 2)"
  using westwood_ewr_branch[where w = westwood_envelope and h = linux and tp = tp_start]
  by (simp add: westwood_envelope_def westwood_start_eq linux_def linux_in_slow_start_def tp_start_def)

text \<open>In slow start the same private area takes neither branch.\<close>

theorem westwood_ewr_branch_counterexample:
  "delay_min westwood_envelope = 10 \<and> delay_max westwood_envelope = 40 \<and>
   dmin_avg westwood_envelope = 0 \<and> dmax_avg westwood_envelope = 0 \<and>
   map_option fst (westwood_ewr 3 linux tp_slow_start westwood_envelope) \<noteq> Some EWR_ENVELOPE \<and>
   westwood_ewr 3 linux tp_slow_start westwood_envelope = Some (EWR_NONE, 0, 0)"
  by (simp add: westwood_ewr_def Let_def westwood_envelope_def westwood_start_eq linux_def
      linux_in_slow_start_def tp_start_def tp_slow_start_def)

section \<open>The delay at a loss\<close>

lemma westwood_filter_delay_loss:
  "westwood_filter w d = Some w' \<Longrightarrow> delay_loss w' = delay_loss w"
  by (auto simp add: westwood_filter_def Let_def split: if_splits)

lemma westwood_update_window_delay_loss:
  "westwood_update_window h tp now w = Some w' \<Longrightarrow> delay_loss w' = delay_loss w"
  by (auto simp add: westwood_update_window_def Let_def split: if_splits option.splits
      dest!: westwood_filter_delay_loss)

lemma update_rtt_min_delay_loss: "delay_loss (update_rtt_min w) = delay_loss w"
  by (simp add: update_rtt_min_def)

lemma westwood_acked_count_delay_loss:
  "delay_loss (fst (westwood_acked_count tp w)) = delay_loss w"
  by (simp add: westwood_acked_count_def Let_def)

lemma tcp_westwood_ack_delay_loss:
  "tcp_westwood_ack h tp now w fl = Some w' \<Longrightarrow> delay_loss w' = delay_loss w"
  by (auto simp add: tcp_westwood_ack_def westwood_fast_bw_def Let_def update_rtt_min_delay_loss
      split: if_splits option.splits prod.splits
      dest!: westwood_update_window_delay_loss)
    (metis fst_conv westwood_acked_count_delay_loss)+

lemma tcp_westwood_cong_avoid_delay_loss:
  "tcp_westwood_cong_avoid bt h tp w ack acked = Some (tp', w') \<Longrightarrow> delay_loss w' = delay_loss w"
  by (auto simp add: tcp_westwood_cong_avoid_def split: option.splits prod.splits if_splits)

lemma tcp_westwood_event_delay_loss:
  "event \<noteq> CA_EVENT_LOSS \<Longrightarrow> tcp_westwood_event tp w event = Some (tp', w') \<Longrightarrow>
   delay_loss w' = delay_loss w"
  by (cases event) (auto simp add: tcp_westwood_event_def split: option.splits)

lemma westwood_step_delay_loss:
  "westwood_no_loss e \<Longrightarrow> westwood_step bt h w e = Some w' \<Longrightarrow> delay_loss w' = delay_loss w"
  by (cases e)
    (auto simp add: tcp_westwood_pkts_acked_def
      dest: tcp_westwood_ack_delay_loss tcp_westwood_cong_avoid_delay_loss tcp_westwood_event_delay_loss)

lemma westwood_run_delay_loss:
  "list_all westwood_no_loss es \<Longrightarrow> westwood_run bt h w es = Some w' \<Longrightarrow>
   delay_loss w' = delay_loss w"
proof (induction es arbitrary: w)
  case Nil
  then show ?case by simp
next
  case (Cons e es)
  then obtain w1 where s: "westwood_step bt h w e = Some w1" and r: "westwood_run bt h w1 es = Some w'"
    by (auto split: option.splits)
  have "delay_loss w1 = delay_loss w" using Cons.prems(1) s by (auto dest: westwood_step_delay_loss)
  moreover have "delay_loss w' = delay_loss w1" using Cons.IH[OF _ r] Cons.prems(1) by simp
  ultimately show ?case by simp
qed

lemma westwood_loss_delay:
  "mss_cache tp \<noteq> 0 \<Longrightarrow>
   map_option (delay_loss \<circ> snd) (tcp_westwood_event tp w CA_EVENT_LOSS) =
     Some (westwood_update_delay (rtt w) (delay_loss w))"
  by (simp add: tcp_westwood_event_def tcp_westwood_bw_rttmin_def)

text \<open>
  C10. After \<^verbatim>\<open>tcp_westwood_init\<close> and any events without a loss, \<^verbatim>\<open>delay_loss\<close> still holds
  its initial 1. The first \<^verbatim>\<open>CA_EVENT_LOSS\<close>, with \<^verbatim>\<open>rtt = 100\<close>, sets it to \<^verbatim>\<open>100 << 2\<close>, that is
  400. After further events without a loss, the next \<^verbatim>\<open>CA_EVENT_LOSS\<close>, with \<^verbatim>\<open>rtt = 120\<close>,
  sets it to \<^verbatim>\<open>delay_loss - (delay_loss >> 2) + 120\<close>, that is 420.
\<close>

theorem westwood_delay_loss_scenario:
  assumes "westwood_run bt h (tcp_westwood_init h tp0 now w0) es1 = Some w1"
    and "list_all westwood_no_loss es1" and "rtt w1 = 100" and "mss_cache tp1 \<noteq> 0"
    and "tcp_westwood_event tp1 w1 CA_EVENT_LOSS = Some (tp1', w2)"
    and "westwood_run bt h w2 es2 = Some w3"
    and "list_all westwood_no_loss es2" and "rtt w3 = 120" and "mss_cache tp3 \<noteq> 0"
  shows "delay_loss w1 = 1 \<and> delay_loss w2 = push_bit 2 100 \<and> delay_loss w2 = 400 \<and>
         map_option (delay_loss \<circ> snd) (tcp_westwood_event tp3 w3 CA_EVENT_LOSS) =
           Some (delay_loss w3 - drop_bit 2 (delay_loss w3) + 120) \<and>
         map_option (delay_loss \<circ> snd) (tcp_westwood_event tp3 w3 CA_EVENT_LOSS) = Some 420"
proof -
  have d1: "delay_loss w1 = 1"
    using westwood_run_delay_loss[OF assms(2) assms(1)] by (simp add: tcp_westwood_init_def)
  have "map_option (delay_loss \<circ> snd) (tcp_westwood_event tp1 w1 CA_EVENT_LOSS)
      = Some (westwood_update_delay (rtt w1) (delay_loss w1))"
    using assms(4) by (rule westwood_loss_delay)
  then have d2: "delay_loss w2 = 400"
    using assms(5) assms(3) d1 by (simp add: westwood_update_delay_def)
  have d3: "delay_loss w3 = 400"
    using westwood_run_delay_loss[OF assms(7) assms(6)] d2 by simp
  have "map_option (delay_loss \<circ> snd) (tcp_westwood_event tp3 w3 CA_EVENT_LOSS)
      = Some (westwood_update_delay (rtt w3) (delay_loss w3))"
    using assms(9) by (rule westwood_loss_delay)
  then show ?thesis using d1 d2 d3 assms(8) by (simp add: westwood_update_delay_def)
qed

text \<open>The theorem on a run where the samples 100000 and 120000 microseconds set \<^verbatim>\<open>rtt\<close>.\<close>

theorem westwood_delay_loss_scenario_witness:
  "westwood_run 3 linux (tcp_westwood_init linux tp_start 5000 westwood_zero) [W_PKTS_ACKED 1 100000]
     = Some (westwood_start\<lparr>rtt := 100\<rparr>) \<and>
   list_all westwood_no_loss [W_PKTS_ACKED 1 100000] \<and>
   rtt (westwood_start\<lparr>rtt := 100\<rparr>) = 100 \<and> mss_cache tp_start \<noteq> 0 \<and>
   tcp_westwood_event tp_start (westwood_start\<lparr>rtt := 100\<rparr>) CA_EVENT_LOSS
     = Some (tp_start, westwood_start\<lparr>rtt := 100, delay_loss := 400\<rparr>) \<and>
   westwood_run 3 linux (westwood_start\<lparr>rtt := 100, delay_loss := 400\<rparr>) [W_PKTS_ACKED 1 120000]
     = Some (westwood_start\<lparr>rtt := 120, delay_loss := 400\<rparr>) \<and>
   list_all westwood_no_loss [W_PKTS_ACKED 1 120000] \<and>
   rtt (westwood_start\<lparr>rtt := 120, delay_loss := 400\<rparr>) = 120 \<and>
   map_option (delay_loss \<circ> snd)
     (tcp_westwood_event tp_start (westwood_start\<lparr>rtt := 120, delay_loss := 400\<rparr>) CA_EVENT_LOSS)
     = Some 420"
proof -
  have r1: "westwood_run 3 linux (tcp_westwood_init linux tp_start 5000 westwood_zero)
      [W_PKTS_ACKED 1 100000] = Some (westwood_start\<lparr>rtt := 100\<rparr>)"
    by (simp add: westwood_start_def[symmetric] tcp_westwood_pkts_acked_def linux_sel linux_jiffies_100)
  have q1: "list_all westwood_no_loss [W_PKTS_ACKED 1 100000]" by simp
  have m: "mss_cache tp_start \<noteq> 0" by (simp add: tp_start_def)
  have l1: "tcp_westwood_event tp_start (westwood_start\<lparr>rtt := 100\<rparr>) CA_EVENT_LOSS
     = Some (tp_start, westwood_start\<lparr>rtt := 100, delay_loss := 400\<rparr>)"
    by (simp add: tcp_westwood_event_def tcp_westwood_bw_rttmin_def westwood_update_delay_def
        westwood_start_eq tp_start_def)
  have r2: "westwood_run 3 linux (westwood_start\<lparr>rtt := 100, delay_loss := 400\<rparr>)
      [W_PKTS_ACKED 1 120000] = Some (westwood_start\<lparr>rtt := 120, delay_loss := 400\<rparr>)"
    by (simp add: tcp_westwood_pkts_acked_def linux_sel linux_jiffies_120 westwood_start_eq)
  have q2: "list_all westwood_no_loss [W_PKTS_ACKED 1 120000]" by simp
  show ?thesis
    using westwood_delay_loss_scenario[OF r1 q1 _ m l1 r2 q2 _ m] r1 l1 r2 m by simp
qed

section \<open>The per-ACK decision of TCP Nice\<close>

lemma nice_pacing_step:
  "fractional_cwnd n > 2 \<Longrightarrow>
   nice_pacing tp n =
     (tp\<lparr>snd_cwnd := (if nice_timer n = fractional_cwnd n then 2 else 0)\<rparr>,
      n\<lparr>nice_timer := (if nice_timer n = fractional_cwnd n then 1 else nice_timer n + 1)\<rparr>)"
  by (simp add: nice_pacing_def)

lemma nice_ticks_timer:
  assumes f: "fractional_cwnd n > 2" and t1: "1 \<le> nice_timer n" and t2: "nice_timer n \<le> fractional_cwnd n"
  shows "fractional_cwnd (snd (nice_ticks k (tp, n))) = fractional_cwnd n \<and>
         unat (nice_timer (snd (nice_ticks k (tp, n)))) =
           (unat (nice_timer n) - 1 + k) mod unat (fractional_cwnd n) + 1 \<and>
         snd_cwnd (fst (nice_ticks (Suc k) (tp, n))) =
           (if (unat (nice_timer n) - 1 + k) mod unat (fractional_cwnd n) + 1 = unat (fractional_cwnd n)
            then 2 else 0)"
proof (induction k)
  case 0
  have "unat (nice_timer n) - 1 < unat (fractional_cwnd n)"
    using t1 t2 f by (simp add: word_le_nat_alt word_less_nat_alt) 
  then have m: "(unat (nice_timer n) - 1) mod unat (fractional_cwnd n) = unat (nice_timer n) - 1"
    by simp
  have p: "0 < unat (nice_timer n)" using t1 by (simp add: word_le_nat_alt)
  have e: "nice_timer n = fractional_cwnd n \<longleftrightarrow> unat (nice_timer n) = unat (fractional_cwnd n)"
    by (rule word_unat_eq_iff)
  show ?case using f m p e by (simp add: nice_pacing_step)
next
  case (Suc k)
  obtain tp' n' where s: "nice_ticks k (tp, n) = (tp', n')" by (cases "nice_ticks k (tp, n)")
  let ?F = "unat (fractional_cwnd n)"
  let ?t = "unat (nice_timer n)"
  have F: "2 < ?F" using f by (simp add: word_less_nat_alt)
  have F255: "?F < 256" using unsigned_less[of "fractional_cwnd n", where 'a=nat] by simp
  have fc: "fractional_cwnd n' = fractional_cwnd n" using Suc s by simp
  have tm: "unat (nice_timer n') = (?t - 1 + k) mod ?F + 1" using Suc s by simp
  have le: "(?t - 1 + k) mod ?F + 1 \<le> ?F" using F by (simp add: Suc_leI)
  have step: "nice_pacing tp' n' =
     (tp'\<lparr>snd_cwnd := (if nice_timer n' = fractional_cwnd n' then 2 else 0)\<rparr>,
      n'\<lparr>nice_timer := (if nice_timer n' = fractional_cwnd n' then 1 else nice_timer n' + 1)\<rparr>)"
    using f fc by (simp add: nice_pacing_step)
  have eq_iff: "nice_timer n' = fractional_cwnd n' \<longleftrightarrow> (?t - 1 + k) mod ?F + 1 = ?F"
    using tm fc by (simp add: word_unat_eq_iff)
  have next_t: "unat (if nice_timer n' = fractional_cwnd n' then 1 else nice_timer n' + 1)
      = (?t - 1 + Suc k) mod ?F + 1"
  proof (cases "nice_timer n' = fractional_cwnd n'")
    case True
    then have "(?t - 1 + k) mod ?F = ?F - 1" using eq_iff by simp
    then have "(?t - 1 + Suc k) mod ?F = 0"
      using F by (simp add: mod_Suc)
    then show ?thesis using True by simp
  next
    case False
    then have ne: "(?t - 1 + k) mod ?F + 1 \<noteq> ?F" using eq_iff by simp
    then have lt: "(?t - 1 + k) mod ?F + 1 < ?F" using le by simp
    have "(?t - 1 + Suc k) mod ?F = (?t - 1 + k) mod ?F + 1"
      using lt by (simp add: mod_Suc)
    moreover have "unat (nice_timer n' + 1) = unat (nice_timer n') + 1"
      using tm lt F255 by (simp add: unat_word_ariths)
    ultimately show ?thesis using False tm by simp
  qed
  have a: "fractional_cwnd (snd (nice_ticks (Suc k) (tp, n))) = fractional_cwnd n"
    using s step fc by simp
  have b: "unat (nice_timer (snd (nice_ticks (Suc k) (tp, n)))) = (?t - 1 + Suc k) mod ?F + 1"
    using s step next_t by simp
  have c: "snd_cwnd (fst (nice_ticks (Suc (Suc k)) (tp, n))) =
           (if (?t - 1 + Suc k) mod ?F + 1 = ?F then 2 else 0)"
  proof -
    obtain tp2 n2 where s2: "nice_ticks (Suc k) (tp, n) = (tp2, n2)" by (cases "nice_ticks (Suc k) (tp, n)")
    have f2: "fractional_cwnd n2 = fractional_cwnd n" using a s2 by simp
    have t2': "unat (nice_timer n2) = (?t - 1 + Suc k) mod ?F + 1" using b s2 by simp
    have "nice_timer n2 = fractional_cwnd n2 \<longleftrightarrow> (?t - 1 + Suc k) mod ?F + 1 = ?F"
      using t2' f2 by (simp add: word_unat_eq_iff)
    then show ?thesis using s2 f f2 by (simp add: nice_pacing_step)
  qed
  show ?case using a b c by simp
qed

lemma pacing_burst_iff:
  assumes "1 \<le> (t::nat)" "2 < F"
  shows "(t - 1 + k) mod F + 1 = F \<longleftrightarrow> (t + k) mod F = 0"
proof -
  obtain m where m: "t = Suc m" using assms(1) by (cases t) auto
  have "(Suc (m + k)) mod F = (if Suc ((m + k) mod F) = F then 0 else Suc ((m + k) mod F))"
    by (rule mod_Suc)
  then show ?thesis using m by auto
qed

lemma nice_pacing_frame:
  "snd_nxt (fst (nice_pacing tp n)) = snd_nxt tp \<and>
   beg_snd_nxt (snd (nice_pacing tp n)) = beg_snd_nxt n \<and>
   doing_nice_now (snd (nice_pacing tp n)) = doing_nice_now n \<and>
   cntRTT (snd (nice_pacing tp n)) = cntRTT n \<and>
   minRTT (snd (nice_pacing tp n)) = minRTT n \<and>
   baseRTT (snd (nice_pacing tp n)) = baseRTT n \<and>
   fractional_cwnd (snd (nice_pacing tp n)) = fractional_cwnd n"
  by (simp add: nice_pacing_def)

lemma tcp_reno_fractional_ca_frame:
  "beg_snd_nxt (snd (tcp_reno_fractional_ca h tp n ack acked)) = beg_snd_nxt n \<and>
   doing_nice_now (snd (tcp_reno_fractional_ca h tp n ack acked)) = doing_nice_now n \<and>
   cntRTT (snd (tcp_reno_fractional_ca h tp n ack acked)) = cntRTT n \<and>
   minRTT (snd (tcp_reno_fractional_ca h tp n ack acked)) = minRTT n \<and>
   baseRTT (snd (tcp_reno_fractional_ca h tp n ack acked)) = baseRTT n"
  by (simp add: tcp_reno_fractional_ca_def Let_def)

lemma nice_reno_fallback_frame:
  "beg_snd_nxt (snd (nice_reno_fallback p h tp n ack acked)) = beg_snd_nxt n \<and>
   doing_nice_now (snd (nice_reno_fallback p h tp n ack acked)) = doing_nice_now n \<and>
   cntRTT (snd (nice_reno_fallback p h tp n ack acked)) = cntRTT n \<and>
   minRTT (snd (nice_reno_fallback p h tp n ack acked)) = minRTT n \<and>
   baseRTT (snd (nice_reno_fallback p h tp n ack acked)) = baseRTT n"
  by (simp add: nice_reno_fallback_def tcp_reno_fractional_ca_frame)

lemma nice_mult_decrease_frame:
  "beg_snd_nxt (snd (nice_mult_decrease p tp n)) = beg_snd_nxt n \<and>
   doing_nice_now (snd (nice_mult_decrease p tp n)) = doing_nice_now n \<and>
   cntRTT (snd (nice_mult_decrease p tp n)) = cntRTT n \<and>
   minRTT (snd (nice_mult_decrease p tp n)) = minRTT n \<and>
   baseRTT (snd (nice_mult_decrease p tp n)) = baseRTT n"
  by (simp add: nice_mult_decrease_def)

lemma nice_cong_avoidance_frame:
  "beg_snd_nxt (snd (nice_cong_avoidance p tp n d)) = beg_snd_nxt n \<and>
   doing_nice_now (snd (nice_cong_avoidance p tp n d)) = doing_nice_now n \<and>
   cntRTT (snd (nice_cong_avoidance p tp n d)) = cntRTT n \<and>
   minRTT (snd (nice_cong_avoidance p tp n d)) = minRTT n \<and>
   baseRTT (snd (nice_cong_avoidance p tp n d)) = baseRTT n"
  by (simp add: nice_cong_avoidance_def)

lemma nice_vegas_frame:
  assumes "nice_vegas p h fd tp n acked = Some (tp', n')"
  shows "beg_snd_nxt n' = beg_snd_nxt n \<and> doing_nice_now n' = doing_nice_now n \<and>
         cntRTT n' = cntRTT n \<and> minRTT n' = minRTT n \<and> baseRTT n' = baseRTT n"
proof -
  let ?d = "snd_cwnd tp * (minRTT n - baseRTT n) div baseRTT n"
  from assms have "n' = n\<lparr>numCong := 0\<rparr> \<or> n' = n \<or> n' = snd (nice_mult_decrease p tp n)
      \<or> n' = snd (nice_cong_avoidance p tp n ?d)"
    by (auto simp add: nice_vegas_def Let_def split: if_splits option.splits prod.splits)
  then show ?thesis
    using nice_mult_decrease_frame[of p tp n] nice_cong_avoidance_frame[of p tp n ?d]
    by (elim disjE) simp_all
qed

lemma tcp_nice_cong_avoid_frame:
  assumes "tcp_nice_cong_avoid p h fd tp n ack acked = Some (tp', n')"
  shows "doing_nice_now n' = doing_nice_now n \<and> baseRTT n' = baseRTT n \<and>
         (minRTT n' = minRTT n \<or> minRTT n' = 0x7fffffff) \<and>
         (doing_nice_now n \<noteq> 0 \<and> after ack (beg_snd_nxt n) \<longrightarrow> beg_snd_nxt n' = snd_nxt tp)"
proof -
  obtain tp0 n0 where pc: "nice_pacing tp n = (tp0, n0)" by (cases "nice_pacing tp n")
  have f0: "snd_nxt tp0 = snd_nxt tp \<and> beg_snd_nxt n0 = beg_snd_nxt n \<and>
      doing_nice_now n0 = doing_nice_now n \<and> cntRTT n0 = cntRTT n \<and> minRTT n0 = minRTT n \<and>
      baseRTT n0 = baseRTT n"
    using nice_pacing_frame[of tp n] pc by simp
  show ?thesis
  proof (cases "doing_nice_now n0 = 0")
    case True
    then have "n' = snd (nice_reno_fallback p h tp0 n0 ack acked)"
      using assms pc by (simp add: tcp_nice_cong_avoid_def)
    then show ?thesis using nice_reno_fallback_frame[of p h tp0 n0 ack acked] f0 True by simp
  next
    case False
    show ?thesis
    proof (cases "after ack (beg_snd_nxt n0)")
      case notafter: False
      then have "n' = n0" using assms pc False
        by (auto simp add: tcp_nice_cong_avoid_def split: if_splits)
      then show ?thesis using f0 notafter by simp
    next
      case True
      let ?n1 = "n0\<lparr>beg_snd_nxt := snd_nxt tp0\<rparr>"
      let ?w = "\<lambda>m. m\<lparr>cntRTT := 0, minRTT := 0x7fffffff, maxRTT := 0, numCong := 0\<rparr>"
      show ?thesis
      proof (cases "cntRTT n0 \<le> 2")
        case le: True
        then have "n' = ?w (snd (nice_reno_fallback p h tp0 ?n1 ack acked))"
          using assms pc False True
          by (auto simp add: tcp_nice_cong_avoid_def Let_def split: prod.splits)
        then show ?thesis using nice_reno_fallback_frame[of p h tp0 ?n1 ack acked] f0 by simp
      next
        case gt: False
        then obtain tp2 n2 where v: "nice_vegas p h fd tp0 ?n1 acked = Some (tp2, n2)"
          and n': "n' = ?w n2"
          using assms pc False True
          by (auto simp add: tcp_nice_cong_avoid_def Let_def split: prod.splits option.splits)
        show ?thesis using nice_vegas_frame[OF v] n' f0 by simp
      qed
    qed
  qed
qed

lemma nice_round_end_first:
  "tcp_nice_cong_avoid nice_defaults linux 2 tp_start nice_round_end 800 1 =
     Some (tp_start\<lparr>snd_cwnd := 3\<rparr>,
           nice_round_end\<lparr>beg_snd_nxt := 1000, cntRTT := 0, minRTT := 0x7fffffff, maxRTT := 0\<rparr>)"
  by code_simp

text \<open>
  The pacing statement alone: with \<^verbatim>\<open>fractional_cwnd > 2\<close> and \<^verbatim>\<open>nice_timer\<close> between 1 and
  \<^verbatim>\<open>fractional_cwnd\<close>, the value written at tick \<open>k + 1\<close> is 2 exactly when \<^verbatim>\<open>fractional_cwnd\<close>
  divides \<^verbatim>\<open>nice_timer\<close> \<open>+ k\<close>, and 0 otherwise: the written values have the period
  \<^verbatim>\<open>fractional_cwnd\<close>.
\<close>

lemma nice_pacing_period:
  assumes "fractional_cwnd n > 2" and "1 \<le> nice_timer n" and "nice_timer n \<le> fractional_cwnd n"
  shows "snd_cwnd (fst (nice_ticks (Suc k) (tp, n))) =
           (if (unat (nice_timer n) + k) mod unat (fractional_cwnd n) = 0 then 2 else 0) \<and>
         snd_cwnd (fst (nice_ticks (Suc k + unat (fractional_cwnd n)) (tp, n))) =
           snd_cwnd (fst (nice_ticks (Suc k) (tp, n))) \<and>
         fractional_cwnd (snd (nice_ticks k (tp, n))) = fractional_cwnd n"
proof -
  let ?F = "unat (fractional_cwnd n)"
  let ?t = "unat (nice_timer n)"
  have F: "2 < ?F" using assms(1) by (simp add: word_less_nat_alt)
  have t1: "1 \<le> ?t" using assms(2) by (simp add: word_le_nat_alt)
  have c: "snd_cwnd (fst (nice_ticks (Suc j) (tp, n))) = (if (?t + j) mod ?F = 0 then 2 else 0)" for j
    using nice_ticks_timer[OF assms, of j tp] pacing_burst_iff[OF t1 F, of j] by simp
  have "snd_cwnd (fst (nice_ticks (Suc (k + ?F)) (tp, n))) = (if (?t + (k + ?F)) mod ?F = 0 then 2 else 0)"
    by (rule c)
  also have "\<dots> = (if (?t + k) mod ?F = 0 then 2 else 0)"
    by (simp add: add.assoc[symmetric])
  finally have "snd_cwnd (fst (nice_ticks (Suc k + ?F) (tp, n))) = snd_cwnd (fst (nice_ticks (Suc k) (tp, n)))"
    using c[of k] by simp
  then show ?thesis using c[of k] nice_ticks_timer[OF assms, of k tp] by simp
qed

text \<open>
  Every call of \<^verbatim>\<open>tcp_nice_cong_avoid\<close> runs the pacing statement once and nothing else in
  the call writes \<^verbatim>\<open>nice_timer\<close>.
\<close>

lemma tcp_reno_fractional_ca_timer:
  "nice_timer (snd (tcp_reno_fractional_ca h tp n ack acked)) = nice_timer n"
  by (simp add: tcp_reno_fractional_ca_def Let_def)

lemma nice_reno_fallback_timer:
  "nice_timer (snd (nice_reno_fallback p h tp n ack acked)) = nice_timer n"
  by (simp add: nice_reno_fallback_def tcp_reno_fractional_ca_timer)

lemma nice_vegas_timer:
  assumes "nice_vegas p h fd tp n acked = Some (tp', n')"
  shows "nice_timer n' = nice_timer n"
proof -
  let ?d = "snd_cwnd tp * (minRTT n - baseRTT n) div baseRTT n"
  from assms have "n' = n\<lparr>numCong := 0\<rparr> \<or> n' = n \<or> n' = snd (nice_mult_decrease p tp n)
      \<or> n' = snd (nice_cong_avoidance p tp n ?d)"
    by (auto simp add: nice_vegas_def Let_def split: if_splits option.splits prod.splits)
  moreover have "nice_timer (snd (nice_mult_decrease p tp n)) = nice_timer n"
    by (simp add: nice_mult_decrease_def)
  moreover have "nice_timer (snd (nice_cong_avoidance p tp n ?d)) = nice_timer n"
    by (simp add: nice_cong_avoidance_def)
  ultimately show ?thesis by (elim disjE) simp_all
qed

lemma tcp_nice_cong_avoid_timer:
  assumes "tcp_nice_cong_avoid p h fd tp n ack acked = Some (tp', n')"
  shows "nice_timer n' = nice_timer (snd (nice_pacing tp n))"
proof -
  obtain tp0 n0 where pc: "nice_pacing tp n = (tp0, n0)" by (cases "nice_pacing tp n")
  let ?n1 = "n0\<lparr>beg_snd_nxt := snd_nxt tp0\<rparr>"
  have "n' = snd (nice_reno_fallback p h tp0 n0 ack acked) \<or> n' = n0 \<or>
        (\<exists>m. nice_timer m = nice_timer n0 \<and>
             n' = m\<lparr>cntRTT := 0, minRTT := 0x7fffffff, maxRTT := 0, numCong := 0\<rparr>)"
  proof (cases "doing_nice_now n0 \<noteq> 0 \<and> after ack (beg_snd_nxt n0)")
    case False
    then show ?thesis using assms pc
      by (auto simp add: tcp_nice_cong_avoid_def split: if_splits)
  next
    case True
    show ?thesis
    proof (cases "cntRTT n0 \<le> 2")
      case le: True
      then have "n' = (snd (nice_reno_fallback p h tp0 ?n1 ack acked))
          \<lparr>cntRTT := 0, minRTT := 0x7fffffff, maxRTT := 0, numCong := 0\<rparr>"
        using assms pc True by (auto simp add: tcp_nice_cong_avoid_def Let_def split: prod.splits)
      then show ?thesis using nice_reno_fallback_timer[of p h tp0 ?n1 ack acked] by auto
    next
      case gt: False
      then obtain tp2 n2 where v: "nice_vegas p h fd tp0 ?n1 acked = Some (tp2, n2)"
        and n': "n' = n2\<lparr>cntRTT := 0, minRTT := 0x7fffffff, maxRTT := 0, numCong := 0\<rparr>"
        using assms pc True
        by (auto simp add: tcp_nice_cong_avoid_def Let_def split: prod.splits option.splits)
      show ?thesis using nice_vegas_timer[OF v] n' by auto
    qed
  qed
  then show ?thesis using pc nice_reno_fallback_timer[of p h tp0 n0 ack acked] by auto
qed

text \<open>
  While \<^verbatim>\<open>fractional_cwnd\<close> stays above 2, the Reno fallback restores the value that the
  pacing wrote, and the multiplicative decrease and the congestion avoidance branch leave
  it alone.
\<close>

lemma tcp_reno_fractional_ca_restores:
  "fractional_cwnd (snd (tcp_reno_fractional_ca h tp n ack acked)) > 2 \<Longrightarrow>
   snd_cwnd (fst (tcp_reno_fractional_ca h tp n ack acked)) = snd_cwnd tp"
  by (auto simp add: tcp_reno_fractional_ca_def Let_def split: if_splits)

lemma nice_mult_decrease_keeps_cwnd:
  "fractional_cwnd n > 2 \<Longrightarrow> snd_cwnd (fst (nice_mult_decrease p tp n)) = snd_cwnd tp"
  by (auto simp add: nice_mult_decrease_def)

lemma nice_cong_avoidance_keeps_cwnd:
  "fractional_cwnd n > 2 \<Longrightarrow> snd_cwnd (fst (nice_cong_avoidance p tp n d)) = snd_cwnd tp"
  by (auto simp add: nice_cong_avoidance_def)

text \<open>
  C2. With \<^verbatim>\<open>fractional_cwnd > 2\<close> the pacing means \<^verbatim>\<open>snd_cwnd\<close> to be 2 on the tick where
  \<^verbatim>\<open>nice_timer\<close> equals \<^verbatim>\<open>fractional_cwnd\<close> and 0 on every other tick, but the slow start
  statements of \<^verbatim>\<open>tcp_nice_cong_avoid\<close> run after it without restoring it. The run of the
  first round from initialisation enters the pacing with \<^verbatim>\<open>fractional_cwnd = 8\<close> and
  \<^verbatim>\<open>nice_timer = 0\<close>. On the next ACK, which is not past the saved right edge, the pacing
  writes 0, the connection is then in slow start, and the call returns with
  \<^verbatim>\<open>snd_cwnd = 1\<close>. The same call with the sampling switched off takes the Reno fallback,
  which moves the increase into \<^verbatim>\<open>fractional_cwnd\<close> and restores the 0.
\<close>

theorem nice_pacing_overwritten:
  "nice_run nice_defaults linux (0, nice_zero) (take 5 nice_cap_trace) = Some (2, nice_waiting) \<and>
   fractional_cwnd nice_waiting > 2 \<and> nice_timer nice_waiting \<noteq> fractional_cwnd nice_waiting \<and>
   doing_nice_now nice_waiting \<noteq> 0 \<and> \<not> after 1500 (beg_snd_nxt nice_waiting) \<and>
   nice_pacing tp_limited nice_waiting =
     (tp_limited\<lparr>snd_cwnd := 0\<rparr>, nice_waiting\<lparr>nice_timer := 1\<rparr>) \<and>
   tcp_nice_cong_avoid nice_defaults linux 2 tp_limited nice_waiting 1500 1 =
     Some (tp_limited\<lparr>snd_cwnd := 1\<rparr>, nice_waiting\<lparr>nice_timer := 1\<rparr>) \<and>
   tcp_nice_cong_avoid nice_defaults linux 2 tp_limited (nice_disable nice_waiting) 1500 1 =
     Some (tp_limited\<lparr>snd_cwnd := 0\<rparr>,
           nice_disable nice_waiting\<lparr>fractional_cwnd := 6, nice_timer := 1\<rparr>)"
  by code_simp

text \<open>
  C8 (as amended). A call of \<^verbatim>\<open>tcp_nice_cong_avoid\<close> at a round boundary saves \<^verbatim>\<open>snd_nxt\<close> as
  the new right edge. A second call with the same ACK, which is not past \<^verbatim>\<open>snd_nxt\<close>, is
  no round boundary: when the first call left \<^verbatim>\<open>fractional_cwnd\<close> at most 2, the second
  call changes nothing if the connection is not in slow start, and otherwise does a slow
  start increase.
\<close>

theorem nice_round_boundary_repeat:
  assumes "tcp_nice_cong_avoid p h fd tp n ack acked = Some (tp1, n1)"
    and "doing_nice_now n \<noteq> 0" and "after ack (beg_snd_nxt n)"
    and "\<not> after ack (snd_nxt tp)" and "fractional_cwnd n1 \<le> 2"
  shows "(\<not> tcp_in_slow_start h tp1 \<longrightarrow>
            tcp_nice_cong_avoid p h fd tp1 n1 ack acked = Some (tp1, n1)) \<and>
         (tcp_in_slow_start h tp1 \<longrightarrow>
            tcp_nice_cong_avoid p h fd tp1 n1 ack acked = Some (tcp_slow_start h tp1 acked, n1))"
proof -
  have f: "doing_nice_now n1 = doing_nice_now n" "beg_snd_nxt n1 = snd_nxt tp"
    using tcp_nice_cong_avoid_frame[OF assms(1)] assms(2,3) by simp_all
  have pc: "nice_pacing tp1 n1 = (tp1, n1)" using assms(5) by (auto simp add: nice_pacing_def)
  show ?thesis using pc f assms(2,4) by (simp add: tcp_nice_cong_avoid_def)
qed

text \<open>The theorem on a round that ends outside slow start.\<close>

theorem nice_round_boundary_repeat_witness:
  "tcp_nice_cong_avoid nice_defaults linux 2 tp_start nice_round_end 800 1 =
     Some (tp_start\<lparr>snd_cwnd := 3\<rparr>,
           nice_round_end\<lparr>beg_snd_nxt := 1000, cntRTT := 0, minRTT := 0x7fffffff, maxRTT := 0\<rparr>) \<and>
   doing_nice_now nice_round_end \<noteq> 0 \<and> after 800 (beg_snd_nxt nice_round_end) \<and>
   \<not> after 800 (snd_nxt tp_start) \<and>
   fractional_cwnd (nice_round_end\<lparr>beg_snd_nxt := 1000, cntRTT := 0, minRTT := 0x7fffffff, maxRTT := 0\<rparr>) \<le> 2 \<and>
   \<not> tcp_in_slow_start linux (tp_start\<lparr>snd_cwnd := 3\<rparr>) \<and>
   tcp_nice_cong_avoid nice_defaults linux 2 (tp_start\<lparr>snd_cwnd := 3\<rparr>)
     (nice_round_end\<lparr>beg_snd_nxt := 1000, cntRTT := 0, minRTT := 0x7fffffff, maxRTT := 0\<rparr>) 800 1 =
     Some (tp_start\<lparr>snd_cwnd := 3\<rparr>,
           nice_round_end\<lparr>beg_snd_nxt := 1000, cntRTT := 0, minRTT := 0x7fffffff, maxRTT := 0\<rparr>)"
proof -
  have c: "doing_nice_now nice_round_end \<noteq> 0" "after 800 (beg_snd_nxt nice_round_end)"
    "\<not> after 800 (snd_nxt tp_start)"
    "fractional_cwnd (nice_round_end\<lparr>beg_snd_nxt := 1000, cntRTT := 0, minRTT := 0x7fffffff, maxRTT := 0\<rparr>) \<le> 2"
    by (simp_all add: nice_round_end_def nice_mid_round_def after_def tp_start_def)
  have s: "\<not> tcp_in_slow_start linux (tp_start\<lparr>snd_cwnd := 3\<rparr>)"
    by (simp add: linux_sel linux_in_slow_start_def tp_start_def)
  show ?thesis
    using nice_round_boundary_repeat[OF nice_round_end_first c] nice_round_end_first c s by simp
qed

text \<open>In slow start the first call leaves \<^verbatim>\<open>snd_cwnd = 5\<close> and the second \<^verbatim>\<open>snd_cwnd = 6\<close>.\<close>

theorem nice_round_boundary_repeat_counterexample:
  "doing_nice_now nice_round_end \<noteq> 0 \<and> after 800 (beg_snd_nxt nice_round_end) \<and>
   tcp_nice_cong_avoid nice_defaults linux 2 tp_slow_start nice_round_end 800 1 =
     Some (tp_slow_start\<lparr>snd_cwnd := 5\<rparr>,
           nice_round_end\<lparr>beg_snd_nxt := 1000, cntRTT := 0, minRTT := 0x7fffffff, maxRTT := 0\<rparr>) \<and>
   tcp_nice_cong_avoid nice_defaults linux 2 (tp_slow_start\<lparr>snd_cwnd := 5\<rparr>)
     (nice_round_end\<lparr>beg_snd_nxt := 1000, cntRTT := 0, minRTT := 0x7fffffff, maxRTT := 0\<rparr>) 800 1 =
     Some (tp_slow_start\<lparr>snd_cwnd := 6\<rparr>,
           nice_round_end\<lparr>beg_snd_nxt := 1000, cntRTT := 0, minRTT := 0x7fffffff, maxRTT := 0\<rparr>)"
  by code_simp

text \<open>
  C3. The bounds \<open>2 \<le>\<close> \<^verbatim>\<open>fractional_cwnd\<close> \<open>\<le>\<close> \<^verbatim>\<open>max_fwnd\<close> are not kept by
  \<^verbatim>\<open>tcp_nice_cong_avoid\<close>: the run below, from initialisation, reaches \<^verbatim>\<open>fractional_cwnd = 32\<close>,
  within the bounds, and one more round boundary sets it to 128, above \<^verbatim>\<open>max_fwnd = 96\<close>.
\<close>

theorem nice_fractional_cwnd_above_max:
  "map_option (fractional_cwnd \<circ> snd) (nice_run nice_defaults linux (0, nice_zero) nice_cap_trace)
     = Some 32 \<and>
   map_option (fractional_cwnd \<circ> snd)
     (nice_run nice_defaults linux (0, nice_zero)
        (nice_cap_trace @ [N_CONG_AVOID (tp_start\<lparr>snd_nxt := 4000\<rparr>) 3001 1])) = Some 128 \<and>
   uint (32 :: u8) \<le> sint (max_fwnd nice_defaults) \<and> \<not> uint (128 :: u8) \<le> sint (max_fwnd nice_defaults)"
  by code_simp

text \<open>
  C4. At a round boundary with three samples, outside slow start and with \<^verbatim>\<open>numCong\<close> above
  \<^verbatim>\<open>snd_cwnd / (100 / fraction)\<close>, the multiplicative decrease quadruples a
  \<^verbatim>\<open>fractional_cwnd\<close> of 32 to 128: the result is not bounded by \<^verbatim>\<open>max_fwnd = 96\<close>.
\<close>

theorem nice_mult_decrease_above_max:
  "doing_nice_now nice_sub_unit \<noteq> 0 \<and> after 3001 (beg_snd_nxt nice_sub_unit) \<and>
   cntRTT nice_sub_unit \<ge> 3 \<and>
   \<not> tcp_in_slow_start linux (fst (nice_pacing (tp_start\<lparr>snd_nxt := 4000\<rparr>) nice_sub_unit)) \<and>
   ucast (numCong nice_sub_unit) >
     snd_cwnd (fst (nice_pacing (tp_start\<lparr>snd_nxt := 4000\<rparr>) nice_sub_unit))
       div c_sdiv 100 (fraction nice_defaults) \<and>
   map_option (fractional_cwnd \<circ> snd)
     (tcp_nice_cong_avoid nice_defaults linux (c_sdiv 100 (fraction nice_defaults))
        (tp_start\<lparr>snd_nxt := 4000\<rparr>) nice_sub_unit 3001 1) = Some 128 \<and>
   \<not> uint (128 :: u8) \<le> sint (max_fwnd nice_defaults)"
  by code_simp

section \<open>Divisions\<close>

lemma c_sdiv_fraction:
  assumes "0 < sint f" "sint f \<le> 100"
  shows "c_sdiv 100 f \<noteq> 0"
proof -
  have q: "1 \<le> (100::int) div sint f"
    using assms by (simp add: pos_imp_zdiv_pos_iff int_one_le_iff_zero_less)
  have "(100::int) div sint f \<le> 100 div 1"
    using assms by (intro zdiv_mono2) auto
  then have q2: "(100::int) div sint f \<le> 100" by simp
  have "(100::int) sdiv sint f = 100 div sint f" using assms
    by (simp add: signed_divide_int_def)
  then have "c_sdiv 100 f = word_of_int (100 div sint f)" by (simp add: c_sdiv_def)
  moreover have "(word_of_int (100 div sint f) :: s32) \<noteq> 0"
    using q q2 by (auto simp add: word_of_int_eq_0_iff dest: zdvd_imp_le)
  ultimately show ?thesis by simp
qed

lemma nice_vegas_Some:
  "fd \<noteq> 0 \<Longrightarrow> minRTT n \<noteq> 0 \<Longrightarrow> baseRTT n \<noteq> 0 \<Longrightarrow> nice_vegas p h fd tp n acked \<noteq> None"
  by (simp add: nice_vegas_def Let_def split: prod.splits)

lemma tcp_nice_cong_avoid_Some:
  assumes "fd \<noteq> 0" "minRTT n \<noteq> 0" "baseRTT n \<noteq> 0"
  shows "tcp_nice_cong_avoid p h fd tp n ack acked \<noteq> None"
proof -
  obtain tp0 n0 where pc: "nice_pacing tp n = (tp0, n0)" by (cases "nice_pacing tp n")
  have f0: "minRTT n0 = minRTT n \<and> baseRTT n0 = baseRTT n"
    using nice_pacing_frame[of tp n] pc by simp
  have "nice_vegas p h fd tp0 (n0\<lparr>beg_snd_nxt := snd_nxt tp0\<rparr>) acked \<noteq> None"
    using assms f0 by (intro nice_vegas_Some) simp_all
  then show ?thesis using pc
    by (auto simp add: tcp_nice_cong_avoid_def Let_def split: prod.splits option.splits)
qed

lemma tcp_nice_cong_avoid_None:
  assumes "tcp_nice_cong_avoid p h fd tp n ack acked = None"
  shows "doing_nice_now n \<noteq> 0 \<and> after ack (beg_snd_nxt n) \<and> 2 < cntRTT n"
proof -
  obtain tp0 n0 where pc: "nice_pacing tp n = (tp0, n0)" by (cases "nice_pacing tp n")
  have f0: "doing_nice_now n0 = doing_nice_now n \<and> beg_snd_nxt n0 = beg_snd_nxt n \<and>
      cntRTT n0 = cntRTT n"
    using nice_pacing_frame[of tp n] pc by simp
  show ?thesis using assms pc f0
    by (auto simp add: tcp_nice_cong_avoid_def Let_def split: prod.splits option.splits if_splits)
qed

lemma word_ge1_iff: "1 \<le> (x :: 'a::len word) \<longleftrightarrow> x \<noteq> 0"
  by (simp add: word_le_nat_alt unat_gt_0 Suc_le_eq)

lemma tcp_nice_init_ok:
  assumes "0 < sint (fraction p)" "sint (fraction p) \<le> 100"
  shows "\<exists>s. tcp_nice_init p tp n = Some s \<and> nice_divisors_ok s"
proof -
  have "fraction p \<noteq> 0" using assms(1) by auto
  then show ?thesis
    using c_sdiv_fraction[OF assms]
    by (simp add: tcp_nice_init_def nice_divisors_ok_def nice_enable_def)
qed

lemma vrtt_bounds:
  assumes "0 \<le> sint (r::s32)"
  shows "1 \<le> r + 1"
proof -
  have "unat (r + 1) = unat r + 1" using assms by (rule s32_nonneg_succ)
  then show ?thesis by (simp add: word_le_nat_alt)
qed

lemma tcp_nice_pkts_acked_ok:
  assumes "nice_divisors_ok (fd, n)"
  shows "nice_divisors_ok (fd, tcp_nice_pkts_acked p n cnt r)"
proof (cases "sint r < 0")
  case True
  then show ?thesis using assms by (simp add: tcp_nice_pkts_acked_def)
next
  case False
  then have nn: "0 \<le> sint r" by simp
  have v: "1 \<le> r + 1" using nn by (rule vrtt_bounds)
  have m: "minRTT (tcp_nice_pkts_acked p n cnt r) = min (minRTT n) (r + 1)"
    using nn by (rule pkts_acked_minRTT)
  have b: "baseRTT (tcp_nice_pkts_acked p n cnt r) = (if r + 1 < baseRTT n then r + 1 else baseRTT n)"
    using nn by (simp add: tcp_nice_pkts_acked_def Let_def)
  show ?thesis using assms v m b
    by (auto simp add: nice_divisors_ok_def min_def)
qed

lemma tcp_nice_state_ok:
  "nice_divisors_ok (fd, n) \<Longrightarrow> nice_divisors_ok (fd, tcp_nice_state tp n ca)"
  by (simp add: nice_divisors_ok_def tcp_nice_state_def nice_enable_def nice_disable_def)

lemma tcp_nice_cong_avoid_ok:
  assumes "nice_divisors_ok (fd, n)"
  shows "\<exists>tp' n'. tcp_nice_cong_avoid p h fd tp n ack acked = Some (tp', n') \<and>
           nice_divisors_ok (fd, n')"
proof -
  have nz: "fd \<noteq> 0" "minRTT n \<noteq> 0" "baseRTT n \<noteq> 0"
    using assms by (simp_all add: nice_divisors_ok_def word_ge1_iff)
  obtain tp' n' where s: "tcp_nice_cong_avoid p h fd tp n ack acked = Some (tp', n')"
    using tcp_nice_cong_avoid_Some[OF nz, of p h tp ack acked] by auto
  have "baseRTT n' = baseRTT n \<and> (minRTT n' = minRTT n \<or> minRTT n' = 0x7fffffff)"
    using tcp_nice_cong_avoid_frame[OF s] by simp
  then have "nice_divisors_ok (fd, n')" using assms by (auto simp add: nice_divisors_ok_def)
  then show ?thesis using s by simp
qed

lemma nice_step_ok:
  assumes "0 < sint (fraction p)" "sint (fraction p) \<le> 100" and "nice_divisors_ok s"
  shows "\<exists>s'. nice_step p h s e = Some s' \<and> nice_divisors_ok s'"
proof -
  obtain fd n where s: "s = (fd, n)" by (cases s)
  show ?thesis
  proof (cases e)
    case (N_INIT tp)
    then show ?thesis using tcp_nice_init_ok[OF assms(1,2)] s by simp
  next
    case (N_PKTS_ACKED cnt r)
    then show ?thesis using tcp_nice_pkts_acked_ok assms(3) s by simp
  next
    case (N_SET_STATE tp ca)
    then show ?thesis using tcp_nice_state_ok assms(3) s by simp
  next
    case (N_CWND_EVENT tp ev)
    then show ?thesis using tcp_nice_init_ok[OF assms(1,2)] assms(3) s
      by (simp add: tcp_nice_cwnd_event_def)
  next
    case (N_CONG_AVOID tp ack acked)
    then show ?thesis
      using tcp_nice_cong_avoid_ok[of fd n p h tp ack acked] assms(3) s by auto
  qed
qed

lemma nice_run_ok:
  assumes "0 < sint (fraction p)" "sint (fraction p) \<le> 100"
  shows "nice_divisors_ok s \<Longrightarrow> \<exists>s'. nice_run p h s es = Some s' \<and> nice_divisors_ok s'"
proof (induction es arbitrary: s)
  case Nil
  then show ?case by simp
next
  case (Cons e es)
  obtain s1 where s1: "nice_step p h s e = Some s1" "nice_divisors_ok s1"
    using nice_step_ok[OF assms Cons.prems, of h e] by blast
  show ?case using Cons.IH[OF s1(2)] s1(1) by simp
qed

lemma nice_run_init_ok:
  assumes "0 < sint (fraction p)" "sint (fraction p) \<le> 100"
  shows "\<exists>s'. nice_run p h s (N_INIT tp # es) = Some s' \<and> nice_divisors_ok s'"
proof -
  obtain fd n where s: "s = (fd, n)" by (cases s)
  obtain s1 where s1: "tcp_nice_init p tp n = Some s1" "nice_divisors_ok s1"
    using tcp_nice_init_ok[OF assms] by blast
  show ?thesis using nice_run_ok[OF assms s1(2), of h es] s1(1) s by simp
qed

lemma westwood_filter_None: "westwood_filter w d = None \<longleftrightarrow> d = 0"
  by (simp add: westwood_filter_def Let_def)

lemma westwood_update_window_Some: "westwood_update_window h tp now w \<noteq> None"
  by (auto simp add: westwood_update_window_def Let_def westwood_filter_None split: option.splits)

lemma westwood_filter_rtt: "westwood_filter w d = Some w' \<Longrightarrow> rtt w' = rtt w"
  by (auto simp add: westwood_filter_def Let_def split: if_splits)

lemma westwood_update_window_rtt:
  "westwood_update_window h tp now w = Some w' \<Longrightarrow> rtt w' = rtt w"
  by (auto simp add: westwood_update_window_def Let_def split: if_splits option.splits
      dest!: westwood_filter_rtt)

lemma update_rtt_min_rtt: "rtt (update_rtt_min w) = rtt w"
  by (simp add: update_rtt_min_def)

lemma westwood_acked_count_rtt: "rtt (fst (westwood_acked_count tp w)) = rtt w"
  by (simp add: westwood_acked_count_def Let_def)

lemma tcp_westwood_ack_rtt:
  "tcp_westwood_ack h tp now w fl = Some w' \<Longrightarrow> rtt w' = rtt w"
  by (auto simp add: tcp_westwood_ack_def westwood_fast_bw_def Let_def update_rtt_min_rtt
      split: if_splits option.splits prod.splits
      dest!: westwood_update_window_rtt)
    (metis fst_conv westwood_acked_count_rtt)+

lemma tcp_westwood_ack_Some: "tcp_westwood_ack h tp now w fl \<noteq> None"
  using westwood_update_window_Some[of h tp now w]
  by (auto simp add: tcp_westwood_ack_def westwood_fast_bw_def Let_def split: option.splits prod.splits)

lemma westwood_ewr_None:
  "westwood_ewr bt h tp w = None \<Longrightarrow> advmss tp = 0 \<or> delay_loss w = 0"
  by (auto simp add: westwood_ewr_def Let_def split: if_splits)

lemma tcp_westwood_cong_avoid_Some:
  assumes "advmss tp \<noteq> 0" "mss_cache tp \<noteq> 0" "delay_loss w \<noteq> 0"
  shows "\<exists>tp' w'. tcp_westwood_cong_avoid bt h tp w ack acked = Some (tp', w') \<and>
           rtt w' = rtt w \<and> delay_loss w' = delay_loss w"
proof -
  obtain b q t where e: "westwood_ewr bt h tp w = Some (b, q, t)"
    using westwood_ewr_None[of bt h tp w] assms by (cases "westwood_ewr bt h tp w") auto
  show ?thesis using e assms(2)
    by (simp add: tcp_westwood_cong_avoid_def tcp_westwood_bw_rttmin_def)
qed

lemma westwood_update_delay_nonzero:
  assumes "r \<noteq> 0" "r < 0x40000000" "d \<noteq> 0"
  shows "westwood_update_delay r d \<noteq> 0"
proof (cases "d = 1")
  case True
  have r1: "1 \<le> unat r" using assms(1) by (simp add: unat_gt_0 Suc_le_eq)
  have r2: "unat r < 1073741824" using assms(2) by (simp add: word_less_nat_alt)
  have "unat (push_bit 2 r) = 4 * unat r"
    using r2 by (simp add: push_bit_eq_mult unat_word_ariths)
  then have "push_bit 2 r \<noteq> 0" using r1 by (auto simp add: word_unat_eq_iff)
  then show ?thesis using True by (simp add: westwood_update_delay_def)
next
  case False
  let ?q = "drop_bit 2 d"
  have r1: "1 \<le> unat r" using assms(1) by (simp add: unat_gt_0 Suc_le_eq)
  have r2: "unat r < 1073741824" using assms(2) by (simp add: word_less_nat_alt)
  have d2: "2 \<le> unat d" using assms(3) False
    by (metis One_nat_def Suc_1 Suc_leI le_neq_implies_less unat_gt_0 unat_1 word_unat_eq_iff)
  have dl: "unat d < 4294967296" by (rule unat_u32_less)
  have q: "unat ?q = unat d div 4" by (simp add: drop_bit_eq_div unat_div)
  have qle: "?q \<le> d" by (simp add: word_le_nat_alt q)
  have x: "unat (d - ?q) = unat d - unat d div 4" using unat_sub[OF qle] q by simp
  have xl: "unat d - unat d div 4 \<le> 3221225472" using dl by linarith
  have xg: "2 \<le> unat d - unat d div 4" using d2 by linarith
  have "unat (d - ?q) + unat r < 2 ^ LENGTH(32)" using x xl r2 by simp
  then have "unat ((d - ?q) + r) = unat (d - ?q) + unat r" by (rule unat_add_lem[THEN iffD1])
  then have "unat ((d - ?q) + r) \<noteq> 0" using x xg r1 by simp
  then have "(d - ?q) + r \<noteq> 0" by (auto simp add: word_unat_eq_iff)
  moreover have "westwood_update_delay r d = (d - ?q) + r"
    using False assms(3) by (simp add: westwood_update_delay_def Let_def)
  ultimately show ?thesis by simp
qed

lemma tcp_westwood_event_ok:
  assumes "mss_cache tp \<noteq> 0" "westwood_divisors_ok w"
  shows "\<exists>tp' w'. tcp_westwood_event tp w ev = Some (tp', w') \<and> westwood_divisors_ok w'"
  using assms westwood_update_delay_nonzero[of "rtt w" "delay_loss w"]
  by (cases ev) (auto simp add: tcp_westwood_event_def tcp_westwood_bw_rttmin_def westwood_divisors_ok_def)

lemma westwood_step_ok:
  assumes j: "\<And>u. 0 < sint u \<Longrightarrow> usecs_to_jiffies h u \<noteq> 0 \<and> usecs_to_jiffies h u < 0x40000000"
    and i: "TCP_WESTWOOD_INIT_RTT h \<noteq> 0" "TCP_WESTWOOD_INIT_RTT h < 0x40000000"
    and e: "westwood_event_ok e"
    and w: "westwood_divisors_ok w \<or> (\<exists>tp now. e = W_INIT tp now)"
  shows "\<exists>w'. westwood_step bt h w e = Some w' \<and> westwood_divisors_ok w'"
proof (cases e)
  case (W_INIT tp now)
  then show ?thesis using i by (simp add: tcp_westwood_init_def westwood_divisors_ok_def)
next
  case (W_PKTS_ACKED cnt r)
  then show ?thesis using w j[of r]
    by (auto simp add: tcp_westwood_pkts_acked_def westwood_divisors_ok_def)
next
  case (W_ACK tp now fl)
  obtain w' where a: "tcp_westwood_ack h tp now w fl = Some w'"
    using tcp_westwood_ack_Some[of h tp now w fl] by auto
  have "rtt w' = rtt w" "delay_loss w' = delay_loss w"
    using tcp_westwood_ack_rtt[OF a] tcp_westwood_ack_delay_loss[OF a] by simp_all
  then show ?thesis using W_ACK w a by (simp add: westwood_divisors_ok_def)
next
  case (W_CONG_AVOID tp ack acked)
  have d: "delay_loss w \<noteq> 0" using w W_CONG_AVOID by (simp add: westwood_divisors_ok_def)
  have m: "advmss tp \<noteq> 0" "mss_cache tp \<noteq> 0" using e W_CONG_AVOID by simp_all
  obtain tp' w' where a: "tcp_westwood_cong_avoid bt h tp w ack acked = Some (tp', w')"
    "rtt w' = rtt w" "delay_loss w' = delay_loss w"
    using tcp_westwood_cong_avoid_Some[OF m d, of bt h ack acked] by blast
  then show ?thesis using W_CONG_AVOID w by (simp add: westwood_divisors_ok_def)
next
  case (W_CWND_EVENT tp ev)
  have m: "mss_cache tp \<noteq> 0" using e W_CWND_EVENT by simp
  have wo: "westwood_divisors_ok w" using w W_CWND_EVENT by simp
  obtain tp' w' where a: "tcp_westwood_event tp w ev = Some (tp', w')" "westwood_divisors_ok w'"
    using tcp_westwood_event_ok[OF m wo, of ev] by blast
  then show ?thesis using W_CWND_EVENT by simp
qed

lemma westwood_run_ok:
  assumes j: "\<And>u. 0 < sint u \<Longrightarrow> usecs_to_jiffies h u \<noteq> 0 \<and> usecs_to_jiffies h u < 0x40000000"
    and i: "TCP_WESTWOOD_INIT_RTT h \<noteq> 0" "TCP_WESTWOOD_INIT_RTT h < 0x40000000"
  shows "list_all westwood_event_ok es \<Longrightarrow> westwood_divisors_ok w \<Longrightarrow>
         \<exists>w'. westwood_run bt h w es = Some w' \<and> westwood_divisors_ok w'"
proof (induction es arbitrary: w)
  case Nil
  then show ?case by simp
next
  case (Cons e es)
  have e: "westwood_event_ok e" and es: "list_all westwood_event_ok es" using Cons.prems(1) by simp_all
  obtain w1 where w1: "westwood_step bt h w e = Some w1" "westwood_divisors_ok w1"
    using westwood_step_ok[OF j i e, of w bt] Cons.prems(2) by blast
  show ?case using Cons.IH[OF es w1(2)] w1(1) by simp
qed

lemma westwood_run_init_ok:
  assumes j: "\<And>u. 0 < sint u \<Longrightarrow> usecs_to_jiffies h u \<noteq> 0 \<and> usecs_to_jiffies h u < 0x40000000"
    and i: "TCP_WESTWOOD_INIT_RTT h \<noteq> 0" "TCP_WESTWOOD_INIT_RTT h < 0x40000000"
    and es: "list_all westwood_event_ok es"
  shows "\<exists>w'. westwood_run bt h w (W_INIT tp now # es) = Some w' \<and> westwood_divisors_ok w'"
proof -
  have "westwood_divisors_ok (tcp_westwood_init h tp now w)"
    using i by (simp add: tcp_westwood_init_def westwood_divisors_ok_def)
  then show ?thesis using westwood_run_ok[OF j i es, of _ bt] by simp
qed

lemma linux_jiffies_ok:
  assumes "0 < sint u"
  shows "usecs_to_jiffies linux u \<noteq> 0 \<and> usecs_to_jiffies linux u < 0x40000000"
proof -
  have nn: "0 \<le> sint u" using assms by simp
  have u1: "unat u < 2147483648" using nn by (rule s32_nonneg_unat)
  have "u \<noteq> 0" using assms by auto
  then have u0: "1 \<le> unat u" by (simp add: unat_gt_0 Suc_le_eq)
  have a: "unat (ucast u :: u64) = unat u" by (rule unat_ucast_u32_u64)
  have "unat (ucast u :: u64) + unat (999 :: u64) < 2 ^ LENGTH(64)" using a u1 by simp
  then have "unat ((ucast u :: u64) + 999) = unat (ucast u :: u64) + unat (999 :: u64)"
    by (rule unat_add_lem[THEN iffD1])
  then have b: "unat ((ucast u :: u64) + 999) = unat u + 999" using a by simp
  have c: "unat (((ucast u :: u64) + 999) div 1000) = (unat u + 999) div 1000"
    using b by (simp add: unat_div)
  have lo: "1 \<le> (unat u + 999) div 1000" using u0 by linarith
  have hi: "(unat u + 999) div 1000 < 1073741824" using u1 by linarith
  have "unat (ucast (((ucast u :: u64) + 999) div 1000) :: u32) = (unat u + 999) div 1000"
    using c hi by (simp add: unsigned_ucast_eq take_bit_nat_eq_self)
  then have d: "unat (linux_usecs_to_jiffies u) = (unat u + 999) div 1000"
    by (simp add: linux_usecs_to_jiffies_def)
  have "linux_usecs_to_jiffies u \<noteq> 0" using d lo by (auto simp add: word_unat_eq_iff)
  moreover have "linux_usecs_to_jiffies u < 0x40000000" using d hi by (simp add: word_less_nat_alt)
  ultimately show ?thesis by (simp add: linux_sel)
qed

text \<open>
  C7 (as amended). With the parameter \<^verbatim>\<open>fraction\<close> between 1 and 100, and a host whose
  \<^verbatim>\<open>usecs_to_jiffies\<close> maps a positive sample to a value between 1 and \<open>2 ^ 30 - 1\<close>, whose
  \<^verbatim>\<open>20 * HZ\<close> lies in the same range, and which presents a nonzero \<^verbatim>\<open>mss_cache\<close> and \<^verbatim>\<open>advmss\<close>,
  no run of either module from its initialisation divides by zero. In TCP Nice
  \<^verbatim>\<open>fraction_divisor\<close> is nonzero and \<^verbatim>\<open>minRTT\<close> and \<^verbatim>\<open>baseRTT\<close> are at least 1 and at most their
  initial \<^verbatim>\<open>0x7fffffff\<close> in every state of the run, and \<^verbatim>\<open>tcp_nice_cong_avoid\<close> divides only at
  a round boundary with more than two samples. In Westwood+LP the bandwidth filter is the
  only division by \<^verbatim>\<open>delta\<close> and runs only for a nonzero \<^verbatim>\<open>delta\<close>, the early window reduction
  test never divides by a zero \<^verbatim>\<open>dmax_avg\<close> or \<^verbatim>\<open>delay_max\<close>, and \<^verbatim>\<open>delay_loss\<close> is nonzero in every
  state of the run.
\<close>

theorem divisions_never_by_zero:
  assumes "0 < sint (fraction p)" and "sint (fraction p) \<le> 100"
    and "\<And>u. 0 < sint u \<Longrightarrow> usecs_to_jiffies h u \<noteq> 0 \<and> usecs_to_jiffies h u < 0x40000000"
    and "TCP_WESTWOOD_INIT_RTT h \<noteq> 0" and "TCP_WESTWOOD_INIT_RTT h < 0x40000000"
    and "list_all westwood_event_ok wes"
  shows "(\<exists>s. nice_run p h s0 (N_INIT tp # nes) = Some s \<and> nice_divisors_ok s) \<and>
         (tcp_nice_cong_avoid p h fd tp1 n ack acked = None \<longrightarrow>
            doing_nice_now n \<noteq> 0 \<and> after ack (beg_snd_nxt n) \<and> 2 < cntRTT n) \<and>
         (\<exists>w. westwood_run bt h w0 (W_INIT tp2 now # wes) = Some w \<and> westwood_divisors_ok w) \<and>
         (westwood_filter w1 d = None \<longleftrightarrow> d = 0) \<and>
         westwood_update_window h tp3 now3 w3 \<noteq> None \<and>
         (westwood_ewr bt h tp4 w4 = None \<longrightarrow> advmss tp4 = 0 \<or> delay_loss w4 = 0)"
proof -
  have a: "\<exists>s. nice_run p h s0 (N_INIT tp # nes) = Some s \<and> nice_divisors_ok s"
    using assms(1,2) by (rule nice_run_init_ok)
  have b: "tcp_nice_cong_avoid p h fd tp1 n ack acked = None \<longrightarrow>
            doing_nice_now n \<noteq> 0 \<and> after ack (beg_snd_nxt n) \<and> 2 < cntRTT n"
    using tcp_nice_cong_avoid_None[of p h fd tp1 n ack acked] by blast
  have c: "\<exists>w. westwood_run bt h w0 (W_INIT tp2 now # wes) = Some w \<and> westwood_divisors_ok w"
    using assms(3-6) by (rule westwood_run_init_ok)
  have e: "westwood_ewr bt h tp4 w4 = None \<longrightarrow> advmss tp4 = 0 \<or> delay_loss w4 = 0"
    using westwood_ewr_None[of bt h tp4 w4] by blast
  show ?thesis
    using a b c e westwood_filter_None[of w1 d] westwood_update_window_Some[of h tp3 now3 w3]
    by blast
qed

text \<open>The theorem with the default parameters and the Linux host.\<close>

theorem divisions_never_by_zero_witness:
  "0 < sint (fraction nice_defaults) \<and> sint (fraction nice_defaults) \<le> 100 \<and>
   TCP_WESTWOOD_INIT_RTT linux \<noteq> 0 \<and> TCP_WESTWOOD_INIT_RTT linux < 0x40000000 \<and>
   list_all westwood_event_ok westwood_sample_events \<and>
   nice_run nice_defaults linux (0, nice_zero) (N_INIT tp_start # nice_cap_trace) \<noteq> None \<and>
   westwood_run 3 linux westwood_zero (W_INIT tp_start 5000 # westwood_sample_events) \<noteq> None \<and>
   westwood_update_window linux tp_start 6000 westwood_start \<noteq> None"
proof -
  have f: "0 < sint (fraction nice_defaults)" "sint (fraction nice_defaults) \<le> 100"
    by (simp_all add: nice_defaults_def)
  have i: "TCP_WESTWOOD_INIT_RTT linux \<noteq> 0" "TCP_WESTWOOD_INIT_RTT linux < 0x40000000"
    by (simp_all add: TCP_WESTWOOD_INIT_RTT_def linux_sel)
  have l: "list_all westwood_event_ok westwood_sample_events"
    by (simp add: westwood_sample_events_def tp_start_def)
  note T = divisions_never_by_zero[OF f linux_jiffies_ok i l,
        where ?s0.0 = "(0, nice_zero)" and tp = tp_start and nes = nice_cap_trace
          and ?w0.0 = westwood_zero and ?tp2.0 = tp_start and now = 5000 and bt = 3
          and ?tp3.0 = tp_start and ?now3.0 = 6000 and ?w3.0 = westwood_start]
  have n: "nice_run nice_defaults linux (0, nice_zero) (N_INIT tp_start # nice_cap_trace) \<noteq> None"
    using T by blast
  have w: "westwood_run 3 linux westwood_zero (W_INIT tp_start 5000 # westwood_sample_events) \<noteq> None"
    using T by blast
  have u: "westwood_update_window linux tp_start 6000 westwood_start \<noteq> None"
    using T by blast
  show ?thesis using f i l n w u by blast
qed

text \<open>
  Three samples of \<^verbatim>\<open>0x7ffffffe\<close> are recorded as \<^verbatim>\<open>0x7fffffff\<close> and leave \<^verbatim>\<open>minRTT\<close> and
  \<^verbatim>\<open>baseRTT\<close> at \<^verbatim>\<open>0x7fffffff\<close>, and the round boundary divides by them: the divisors are
  not below their initial value. With \<^verbatim>\<open>fraction = 200\<close> the static \<^verbatim>\<open>fraction_divisor\<close> is 0
  and the round boundary divides by it.
\<close>

theorem divisions_never_by_zero_counterexample:
  "cntRTT (nice_samples nice_defaults nice_start nice_long_samples) = 3 \<and>
   minRTT (nice_samples nice_defaults nice_start nice_long_samples) = 0x7fffffff \<and>
   baseRTT (nice_samples nice_defaults nice_start nice_long_samples) = 0x7fffffff \<and>
   doing_nice_now (nice_samples nice_defaults nice_start nice_long_samples) \<noteq> 0 \<and>
   after 1001 (beg_snd_nxt (nice_samples nice_defaults nice_start nice_long_samples)) \<and>
   tcp_nice_cong_avoid nice_defaults linux 2 tp_start
     (nice_samples nice_defaults nice_start nice_long_samples) 1001 1 \<noteq> None \<and>
   tcp_nice_init nice_fraction_200 tp_start nice_zero = Some (0, nice_start) \<and>
   tcp_nice_cong_avoid nice_fraction_200 linux 0 tp_start
     (nice_samples nice_fraction_200 nice_start [(1, 99), (1, 299), (1, 299)]) 1001 1 = None"
  by code_simp

end
